theory Spec2Isabelle
  imports Complex_Main
begin

section \<open>Python values used by the agents\<close>

text \<open>
  A Python \<open>str\<close> is a sequence of Unicode code points, so it is modelled as a list of
  natural numbers; \<open>ascii\<close> embeds an ASCII literal. Python floats are modelled as
  reals, except where the source truncates a float product to an integer (the time
  buffer of \<open>replan\<close>), which is modelled on the binary representation.
\<close>

type_synonym pystr = "nat list"

definition ascii :: "string \<Rightarrow> pystr" where
  "ascii s = map of_char s"

section \<open>Metrics: \<open>BaseAgent.update_performance\<close>\<close>

record PerformanceMetrics =
  tasks_completed :: nat
  success_rate :: real
  average_execution_time :: real

text \<open>The dictionary \<open>performance_metrics\<close> built by \<open>BaseAgent.__init__\<close>.\<close>

definition initial_metrics :: PerformanceMetrics where
  "initial_metrics =
     \<lparr>tasks_completed = 0, success_rate = 0, average_execution_time = 0\<rparr>"

text \<open>
  \<open>update_performance\<close> first increments the counter, then recomputes both running
  means from \<open>total_tasks - 1\<close>, the count before the increment.
\<close>

definition update_performance ::
  "PerformanceMetrics \<Rightarrow> real \<Rightarrow> bool \<Rightarrow> PerformanceMetrics" where
  "update_performance m execution_time succ =
     (let total_tasks = tasks_completed m + 1;
          current_successes = success_rate m * real (total_tasks - 1);
          current_successes = (if succ then current_successes + 1 else current_successes);
          current_avg = average_execution_time m
      in \<lparr>tasks_completed = total_tasks,
          success_rate = current_successes / real total_tasks,
          average_execution_time =
            (current_avg * real (total_tasks - 1) + execution_time) / real total_tasks\<rparr>)"


section \<open>System metrics: \<open>MultiAgentSystem._update_system_metrics\<close>\<close>

record SystemMetrics =
  tasks_processed :: nat
  success_rate_sys :: real
  average_completion_time :: real
  replanning_rate :: real

definition initial_system_metrics :: SystemMetrics where
  "initial_system_metrics =
     \<lparr>tasks_processed = 0, success_rate_sys = 0, average_completion_time = 0,
      replanning_rate = 0\<rparr>"

text \<open>
  The replanning rate is only assigned inside \<open>if replanning_attempts > 0\<close>; the other
  two fields are assigned on every call.
\<close>

definition update_system_metrics ::
  "SystemMetrics \<Rightarrow> real \<Rightarrow> bool \<Rightarrow> int \<Rightarrow> SystemMetrics" where
  "update_system_metrics m completion_time succ replanning_attempts =
     (let total_tasks = tasks_processed m + 1;
          current_successes = success_rate_sys m * real (total_tasks - 1);
          current_successes = (if succ then current_successes + 1 else current_successes);
          current_avg = average_completion_time m
      in \<lparr>tasks_processed = total_tasks,
          success_rate_sys = current_successes / real total_tasks,
          average_completion_time =
            (current_avg * real (total_tasks - 1) + completion_time) / real total_tasks,
          replanning_rate =
            (if replanning_attempts > 0
             then (replanning_rate m * real (total_tasks - 1) + 1) / real total_tasks
             else replanning_rate m)\<rparr>)"

text \<open>
  The incremental mean as the specification words it: prior mean \<open>rate\<close> over \<open>n\<close>
  observations, new boolean observation \<open>b\<close>.
\<close>

definition incremental_mean_spec :: "real \<Rightarrow> nat \<Rightarrow> bool \<Rightarrow> real" where
  "incremental_mean_spec rate n b = (rate * real n + (if b then 1 else 0)) / real (n + 1)"

section \<open>Data model (\<open>models.py\<close>)\<close>

datatype TaskStatus = PENDING | IN_PROGRESS | COMPLETED | FAILED | NEEDS_REPLANNING

datatype TaskPriority = LOW | MEDIUM | HIGH | CRITICAL

text \<open>
  Field names shared by several dataclasses carry a suffix for the class (\<open>id_t\<close> is
  \<open>Task.id\<close>, \<open>id_st\<close> is \<open>SubTask.id\<close>, and so on). Timestamps are seconds as reals.
\<close>

record Task =
  id_t :: pystr
  title_t :: pystr
  description_t :: pystr
  priority :: TaskPriority
  status_t :: TaskStatus
  created_at_t :: real
  updated_at_t :: real
  requirements :: "pystr list"
  expected_output :: pystr

record SubTask =
  id_st :: pystr
  parent_task_id :: pystr
  title_st :: pystr
  description_st :: pystr
  order_st :: int
  status_st :: TaskStatus
  estimated_time :: int
  dependencies :: "pystr list"

record Plan =
  id_p :: pystr
  task_id_p :: pystr
  subtasks :: "SubTask list"
  estimated_total_time :: int
  created_at_p :: real
  agent_id :: pystr

text \<open>Exceptions that the modelled code can raise; \<open>Raised\<close> carries \<open>str(e)\<close>.\<close>

datatype exn = KeyError pystr | OverflowError | TypeError | AttributeError
  | ZeroDivisionError | Raised pystr

text \<open>
  The output of a work function is any Python value; the agents read dictionaries,
  lists, numbers, strings and booleans from it. A dictionary is an association list.
\<close>

datatype pyval = VNone | VBool bool | VInt int | VFloat real | VStr pystr
  | VList "pyval list" | VDict "(pystr \<times> pyval) list"

record ExecutionResult =
  id_er :: pystr
  task_id_er :: pystr
  subtask_id :: "pystr option"
  success :: bool
  output_er :: pyval
  error_message :: "pystr option"
  execution_time :: int
  timestamp_er :: real

section \<open>The Python runtime the agents rely on\<close>

text \<open>
  The functions of the Python runtime that the agents call are parameters of the model:
  \<open>str.lower\<close>; the whitespace test behind \<open>str.split()\<close>; number formatting
  (\<open>format_fixed n x\<close> is \<open>format(x, '.nf')\<close>, \<open>format_percent n x\<close> is
  \<open>format(x, '.n%')\<close>); \<open>str\<close> of a value; the order in which \<open>list(set(xs))\<close>
  lists the elements of \<open>xs\<close>; the clocks and the UUID generator. The last three read
  and advance a world state \<open>'w\<close>.
\<close>

record 'w env =
  lower :: "pystr \<Rightarrow> pystr"
  isspace :: "nat \<Rightarrow> bool"
  format_fixed :: "nat \<Rightarrow> real \<Rightarrow> pystr"
  format_percent :: "nat \<Rightarrow> real \<Rightarrow> pystr"
  str_of :: "pyval \<Rightarrow> pystr"
  list_of_set :: "pystr list \<Rightarrow> pystr list"
  time_time :: "'w \<Rightarrow> real \<times> 'w"
  datetime_now :: "'w \<Rightarrow> real \<times> 'w"
  uuid4 :: "'w \<Rightarrow> pystr \<times> 'w"

text \<open>\<open>kw in s\<close> on strings: \<open>kw\<close> occurs in \<open>s\<close> as a contiguous block.\<close>

fun py_in :: "pystr \<Rightarrow> pystr \<Rightarrow> bool" where
  "py_in kw [] = (kw = [])"
| "py_in kw (c # cs) = (take (length kw) (c # cs) = kw \<or> py_in kw cs)"

text \<open>\<open>s.split()\<close>: the maximal runs of non-whitespace characters, in order.\<close>

fun split_acc :: "(nat \<Rightarrow> bool) \<Rightarrow> pystr \<Rightarrow> pystr \<Rightarrow> pystr list" where
  "split_acc sp cur [] = (if cur = [] then [] else [cur])"
| "split_acc sp cur (c # cs) =
     (if sp c then (if cur = [] then split_acc sp [] cs else cur # split_acc sp [] cs)
      else split_acc sp (cur @ [c]) cs)"

definition py_split :: "'w env \<Rightarrow> pystr \<Rightarrow> pystr list" where
  "py_split e s = split_acc (isspace e) [] s"

text \<open>\<open>str(i)\<close> for a non-negative integer: its decimal digits.\<close>

fun str_nat :: "nat \<Rightarrow> pystr" where
  "str_nat n = (if n < 10 then [48 + n] else str_nat (n div 10) @ [48 + n mod 10])"

declare str_nat.simps [simp del]

text \<open>Sequencing of steps that may raise: the first exception is the result.\<close>

definition and_then :: "exn + 'a \<Rightarrow> ('a \<Rightarrow> exn + 'b) \<Rightarrow> exn + 'b" where
  "and_then m f = (case m of Inl err \<Rightarrow> Inl err | Inr x \<Rightarrow> f x)"

text \<open>Truth value of a Python value, as \<open>not x\<close> and \<open>if x\<close> use it.\<close>

fun truthy :: "pyval \<Rightarrow> bool" where
  "truthy VNone = False"
| "truthy (VBool b) = b"
| "truthy (VInt i) = (i \<noteq> 0)"
| "truthy (VFloat x) = (x \<noteq> 0)"
| "truthy (VStr s) = (s \<noteq> [])"
| "truthy (VList xs) = (xs \<noteq> [])"
| "truthy (VDict d) = (d \<noteq> [])"

text \<open>
  The numeric value of an operand of \<open><\<close>, \<open>>\<close>, \<open>+\<close> or \<open>/\<close> against a number:
  integers, floats and booleans are numbers, anything else raises \<open>TypeError\<close>.
\<close>

fun py_number :: "pyval \<Rightarrow> exn + real" where
  "py_number (VInt i) = Inr (real_of_int i)"
| "py_number (VFloat x) = Inr x"
| "py_number (VBool b) = Inr (if b then 1 else 0)"
| "py_number v = Inl TypeError"

fun py_len :: "pyval \<Rightarrow> exn + nat" where
  "py_len (VStr s) = Inr (length s)"
| "py_len (VList xs) = Inr (length xs)"
| "py_len (VDict d) = Inr (length d)"
| "py_len v = Inl TypeError"

text \<open>\<open>s in v\<close> for a string \<open>s\<close>: an element of a list, a key of a dictionary, a substring of a string.\<close>

fun py_contains :: "pystr \<Rightarrow> pyval \<Rightarrow> exn + bool" where
  "py_contains s (VList xs) = Inr (VStr s \<in> set xs)"
| "py_contains s (VDict d) = Inr (s \<in> fst ` set d)"
| "py_contains s (VStr t) = Inr (py_in s t)"
| "py_contains s v = Inl TypeError"

text \<open>\<open>d.get(key, default)\<close>, and the receiver of \<open>.get\<close>: only a dictionary has it.\<close>

definition dict_get :: "(pystr \<times> pyval) list \<Rightarrow> pystr \<Rightarrow> pyval \<Rightarrow> pyval" where
  "dict_get d key fallback = (case map_of d key of None \<Rightarrow> fallback | Some v \<Rightarrow> v)"

fun as_dict :: "pyval \<Rightarrow> exn + (pystr \<times> pyval) list" where
  "as_dict (VDict d) = Inr d"
| "as_dict v = Inl AttributeError"

section \<open>\<open>BaseAgent\<close>: identity, metrics and the activity log\<close>

text \<open>
  An agent's state is its identifier, its metrics and what it has logged; its name, its
  capabilities, its creation time and the flag \<open>is_active\<close> are never read by the
  methods modelled here. \<open>log_activity\<close> prints one line per call. The model keeps the
  printed activities as a list, one constructor per message of the source, carrying the
  interpolated values. The other console output of the system is not modelled.
\<close>

datatype activity =
    PlanningStarted pystr
  | PlanningDone nat int string
  | PlanningError exn
  | Replanning pystr "pystr list"
  | ExecutionStarted pystr
  | CircularDependency
  | SubtaskFailed pystr
  | ExecutionDone nat nat nat
  | SubtaskStarted pystr
  | SubtaskSucceeded pystr
  | SubtaskError pystr exn
  | VerificationStarted pystr
  | VerificationDone bool real real nat
  | VerificationError exn

record BaseAgent =
  id_a :: pystr
  performance_metrics :: PerformanceMetrics
  activity_log :: "activity list"

definition log_activity :: "BaseAgent \<Rightarrow> activity \<Rightarrow> BaseAgent" where
  "log_activity a act = a\<lparr>activity_log := activity_log a @ [act]\<rparr>"

definition agent_update_performance :: "BaseAgent \<Rightarrow> real \<Rightarrow> bool \<Rightarrow> BaseAgent" where
  "agent_update_performance a elapsed succ =
     a\<lparr>performance_metrics := update_performance (performance_metrics a) elapsed succ\<rparr>"

section \<open>\<open>PlannerAgent\<close>\<close>

text \<open>\<open>_analyze_complexity\<close>: five tests, each adding one to \<open>complexity_factors\<close>.\<close>

definition analyze_complexity :: "'w env \<Rightarrow> Task \<Rightarrow> string" where
  "analyze_complexity e task =
     (let complexity_factors = (0::int);
          complexity_factors =
            (if length (requirements task) > 5
             then complexity_factors + 1 else complexity_factors);
          complexity_factors =
            (if length (py_split e (description_t task)) > 100
             then complexity_factors + 1 else complexity_factors);
          complexity_factors =
            (if priority task \<in> set [HIGH, CRITICAL]
             then complexity_factors + 1 else complexity_factors);
          complexity_factors =
            (if py_in (ascii ''integra'' @ [231, 227] @ ascii ''o'')
                  (lower e (description_t task))
             then complexity_factors + 1 else complexity_factors);
          complexity_factors =
            (if py_in (ascii ''api'') (lower e (description_t task))
             then complexity_factors + 1 else complexity_factors)
      in if complexity_factors \<ge> 3 then ''high''
         else if complexity_factors \<ge> 1 then ''medium''
         else ''low'')"

definition choose_strategy :: "string \<Rightarrow> TaskPriority \<Rightarrow> string" where
  "choose_strategy complexity prio =
     (if complexity = ''high'' \<or> prio = CRITICAL then ''hybrid''
      else if complexity = ''medium'' then ''parallel''
      else ''sequential'')"

text \<open>
  The three strategies build their subtasks from a fixed table by the same loop:
  \<open>enumerate(table, 1)\<close>, identifier \<open>str(i)\<close>, order \<open>i\<close>, status \<open>PENDING\<close>. The
  identifier is never empty, so \<open>SubTask.__post_init__\<close> leaves it alone.
\<close>

definition make_subtasks ::
  "Task \<Rightarrow> (pystr \<times> pystr \<times> int \<times> pystr list) list \<Rightarrow> SubTask list" where
  "make_subtasks task table =
     map (\<lambda>(i, (title, description, time_est, deps)).
            \<lparr>id_st = str_nat i, parent_task_id = id_t task, title_st = title,
             description_st = description, order_st = int i, status_st = PENDING,
             estimated_time = time_est, dependencies = deps\<rparr>)
         (List.enumerate 1 table)"

definition base_subtasks :: "(pystr \<times> pystr \<times> int \<times> pystr list) list" where
  "base_subtasks =
     [(ascii ''An'' @ [225] @ ascii ''lise de Requisitos'',
       ascii ''Analisar e documentar todos os requisitos'',
       30, []),
      (ascii ''Design da Solu'' @ [231, 227] @ ascii ''o'',
       ascii ''Criar design e arquitetura da solu'' @ [231, 227] @ ascii ''o'',
       45, [ascii ''1'']),
      (ascii ''Implementa'' @ [231, 227] @ ascii ''o'',
       ascii ''Implementar a solu'' @ [231, 227] @ ascii ''o conforme o design'',
       120, [ascii ''2'']),
      (ascii ''Testes'',
       ascii ''Executar testes e valida'' @ [231, 245] @ ascii ''es'',
       60, [ascii ''3'']),
      (ascii ''Documenta'' @ [231, 227] @ ascii ''o'',
       ascii ''Criar documenta'' @ [231, 227] @ ascii ''o final'',
       30, [ascii ''4''])]"

definition parallel_subtasks :: "(pystr \<times> pystr \<times> int \<times> pystr list) list" where
  "parallel_subtasks =
     [(ascii ''An'' @ [225] @ ascii ''lise de Requisitos'',
       ascii ''Analisar e documentar todos os requisitos'',
       30, []),
      (ascii ''Pesquisa de Tecnologias'',
       ascii ''Pesquisar tecnologias e ferramentas'',
       45, []),
      (ascii ''Design da Arquitetura'',
       ascii ''Criar arquitetura do sistema'',
       60, [ascii ''1'']),
      (ascii ''Setup do Ambiente'',
       ascii ''Configurar ambiente de desenvolvimento'',
       30, [ascii ''2'']),
      (ascii ''Implementa'' @ [231, 227] @ ascii ''o Core'',
       ascii ''Implementar funcionalidades principais'',
       90, [ascii ''3'', ascii ''4'']),
      (ascii ''Implementa'' @ [231, 227] @ ascii ''o UI'',
       ascii ''Implementar interface do usu'' @ [225] @ ascii ''rio'',
       60, [ascii ''3'', ascii ''4'']),
      (ascii ''Testes Unit'' @ [225] @ ascii ''rios'',
       ascii ''Criar e executar testes unit'' @ [225] @ ascii ''rios'',
       45, [ascii ''5'']),
      (ascii ''Testes de Integra'' @ [231, 227] @ ascii ''o'',
       ascii ''Executar testes de integra'' @ [231, 227] @ ascii ''o'',
       30, [ascii ''5'', ascii ''6'']),
      (ascii ''Documenta'' @ [231, 227] @ ascii ''o'',
       ascii ''Criar documenta'' @ [231, 227] @ ascii ''o completa'',
       40, [ascii ''7'', ascii ''8''])]"

definition hybrid_subtasks :: "(pystr \<times> pystr \<times> int \<times> pystr list) list" where
  "hybrid_subtasks =
     [(ascii ''An'' @ [225] @ ascii ''lise Detalhada'',
       ascii ''An'' @ [225] @ ascii ''lise profunda de requisitos e restri'' @ [231, 245] @ ascii ''es'',
       45, []),
      (ascii ''Prototipagem'',
       ascii ''Criar prot'' @ [243] @ ascii ''tipo inicial'',
       60, [ascii ''1'']),
      (ascii ''Valida'' @ [231, 227] @ ascii ''o do Prot'' @ [243] @ ascii ''tipo'',
       ascii ''Validar prot'' @ [243] @ ascii ''tipo com stakeholders'',
       30, [ascii ''2'']),
      (ascii ''Arquitetura Detalhada'',
       ascii ''Definir arquitetura detalhada'',
       75, [ascii ''3'']),
      (ascii ''Setup Avan'' @ [231] @ ascii ''ado'',
       ascii ''Configurar ambiente e ferramentas'',
       45, [ascii ''4'']),
      (ascii ''Implementa'' @ [231, 227] @ ascii ''o M'' @ [243] @ ascii ''dulo A'',
       ascii ''Implementar primeiro m'' @ [243] @ ascii ''dulo'',
       90, [ascii ''5'']),
      (ascii ''Implementa'' @ [231, 227] @ ascii ''o M'' @ [243] @ ascii ''dulo B'',
       ascii ''Implementar segundo m'' @ [243] @ ascii ''dulo'',
       90, [ascii ''5'']),
      (ascii ''Integra'' @ [231, 227] @ ascii ''o de M'' @ [243] @ ascii ''dulos'',
       ascii ''Integrar todos os m'' @ [243] @ ascii ''dulos'',
       60, [ascii ''6'', ascii ''7'']),
      (ascii ''Testes Abrangentes'',
       ascii ''Executar bateria completa de testes'',
       75, [ascii ''8'']),
      (ascii ''Otimiza'' @ [231, 227] @ ascii ''o'',
       ascii ''Otimizar performance e recursos'',
       45, [ascii ''9'']),
      (ascii ''Documenta'' @ [231, 227] @ ascii ''o T'' @ [233] @ ascii ''cnica'',
       ascii ''Criar documenta'' @ [231, 227] @ ascii ''o t'' @ [233] @ ascii ''cnica'',
       30, [ascii ''10'']),
      (ascii ''Documenta'' @ [231, 227] @ ascii ''o do Usu'' @ [225] @ ascii ''rio'',
       ascii ''Criar documenta'' @ [231, 227] @ ascii ''o do usu'' @ [225] @ ascii ''rio'',
       30, [ascii ''10''])]"

definition sequential_planning :: "Task \<Rightarrow> SubTask list" where
  "sequential_planning task = make_subtasks task base_subtasks"

definition parallel_planning :: "Task \<Rightarrow> SubTask list" where
  "parallel_planning task = make_subtasks task parallel_subtasks"

definition hybrid_planning :: "Task \<Rightarrow> SubTask list" where
  "hybrid_planning task = make_subtasks task hybrid_subtasks"

definition planning_strategies :: "string \<rightharpoonup> (Task \<Rightarrow> SubTask list)" where
  "planning_strategies =
     [''sequential'' \<mapsto> sequential_planning,
      ''parallel'' \<mapsto> parallel_planning,
      ''hybrid'' \<mapsto> hybrid_planning]"

definition decompose_task :: "Task \<Rightarrow> string \<Rightarrow> exn + SubTask list" where
  "decompose_task task strategy =
     (case planning_strategies strategy of
        None \<Rightarrow> Inl (KeyError (ascii strategy))
      | Some f \<Rightarrow> Inr (f task))"

text \<open>\<open>Plan.__post_init__\<close>: an empty identifier is replaced by a fresh UUID.\<close>

definition Plan_post_init :: "'w env \<Rightarrow> Plan \<Rightarrow> 'w \<Rightarrow> Plan \<times> 'w" where
  "Plan_post_init e p w =
     (if id_p p = [] then (let (u, w') = uuid4 e w in (p\<lparr>id_p := u\<rparr>, w')) else (p, w))"

text \<open>\<open>PlannerAgent.process\<close>; the \<open>except\<close> branch records the failure and re-raises.\<close>

definition planner_process ::
  "'w env \<Rightarrow> BaseAgent \<Rightarrow> Task \<Rightarrow> 'w \<Rightarrow> (exn + Plan) \<times> BaseAgent \<times> 'w" where
  "planner_process e a task w =
     (let (start_time, w) = time_time e w;
          a = log_activity a (PlanningStarted (title_t task));
          complexity = analyze_complexity e task;
          strategy = choose_strategy complexity (priority task)
      in case decompose_task task strategy of
           Inl err \<Rightarrow>
             (let (t1, w) = time_time e w;
                  a = agent_update_performance a (t1 - start_time) False;
                  a = log_activity a (PlanningError err)
              in (Inl err, a, w))
         | Inr sts \<Rightarrow>
             (let total_time = sum_list (map estimated_time sts);
                  (created, w) = datetime_now e w;
                  (plan, w) = Plan_post_init e
                     \<lparr>id_p = [], task_id_p = id_t task, subtasks = sts,
                      estimated_total_time = total_time, created_at_p = created,
                      agent_id = id_a a\<rparr> w;
                  (t1, w) = time_time e w;
                  a = agent_update_performance a (t1 - start_time) True;
                  a = log_activity a (PlanningDone (length sts) total_time strategy)
              in (Inr plan, a, w)))"

subsection \<open>The time buffer of \<open>replan\<close>: \<open>int(estimated_time * 1.2)\<close>\<close>

text \<open>
  The product is a double-precision product. The literal \<open>1.2\<close> is the double
  \<open>5404319552844595 / 2^52\<close>; the integer operand is converted to the nearest double;
  the exact product is rounded to 53 significant bits, ties to even; \<open>int\<close> truncates
  towards zero. A magnitude beyond the double range raises \<open>OverflowError\<close> (from the
  conversion, or from \<open>int\<close> applied to infinity).
\<close>

function bit_length :: "int \<Rightarrow> nat" where
  "bit_length n = (if n \<le> 0 then 0 else Suc (bit_length (n div 2)))"
  by pat_completeness auto
termination
  by (relation "measure nat") auto

declare bit_length.simps [simp del]

text \<open>A positive integer rounded to 53 significant bits, ties to even.\<close>

definition round_sig53 :: "int \<Rightarrow> int" where
  "round_sig53 n =
     (if bit_length n \<le> 53 then n
      else let sh = bit_length n - 53;
               q = n div 2 ^ sh;
               r = n mod 2 ^ sh;
               half = 2 ^ (sh - 1);
               q = (if r > half \<or> (r = half \<and> odd q) then q + 1 else q)
           in q * 2 ^ sh)"

definition double_1_2 :: int where
  "double_1_2 = 5404319552844595"

text \<open>
  \<open>scaled\<close> is the rounded product times \<open>2^52\<close>. It is outside the double range when
  it reaches \<open>2^1076\<close>, that is, when it has more than 1076 bits.
\<close>

definition buffer_estimate :: "int \<Rightarrow> exn + int" where
  "buffer_estimate t =
     (let scaled = round_sig53 (round_sig53 \<bar>t\<bar> * double_1_2)
      in if bit_length scaled > 1076 then Inl OverflowError
         else Inr (sgn t * (scaled div 2 ^ 52)))"

text \<open>The loop \<open>for subtask in subtasks\<close>; the first exception ends it.\<close>

fun buffer_all :: "SubTask list \<Rightarrow> exn + SubTask list" where
  "buffer_all [] = Inr []"
| "buffer_all (s # ss) =
     (case buffer_estimate (estimated_time s) of
        Inl err \<Rightarrow> Inl err
      | Inr t \<Rightarrow>
          (case buffer_all ss of
             Inl err \<Rightarrow> Inl err
           | Inr ss' \<Rightarrow> Inr (s\<lparr>estimated_time := t\<rparr> # ss')))"

definition replan_strategy :: "'w env \<Rightarrow> pystr list \<Rightarrow> string" where
  "replan_strategy e issues =
     (if \<exists>issue \<in> set issues. py_in (ascii ''tempo'') (lower e issue) then ''parallel''
      else if \<exists>issue \<in> set issues. py_in (ascii ''qualidade'') (lower e issue) then ''hybrid''
      else ''sequential'')"

text \<open>\<open>PlannerAgent.replan\<close>; it has no \<open>try\<close>, so an exception leaves the agent as it is.\<close>

definition replan ::
  "'w env \<Rightarrow> BaseAgent \<Rightarrow> Task \<Rightarrow> pystr list \<Rightarrow> 'w \<Rightarrow> (exn + Plan) \<times> BaseAgent \<times> 'w" where
  "replan e a task issues w =
     (let a = log_activity a (Replanning (title_t task) issues);
          strategy = replan_strategy e issues
      in case decompose_task task strategy of
           Inl err \<Rightarrow> (Inl err, a, w)
         | Inr sts \<Rightarrow>
             (case buffer_all sts of
                Inl err \<Rightarrow> (Inl err, a, w)
              | Inr sts \<Rightarrow>
                  (let total_time = sum_list (map estimated_time sts);
                       (created, w) = datetime_now e w;
                       (plan, w) = Plan_post_init e
                          \<lparr>id_p = [], task_id_p = id_t task, subtasks = sts,
                           estimated_total_time = total_time, created_at_p = created,
                           agent_id = id_a a\<rparr> w
                   in (Inr plan, a, w))))"

subsection \<open>The decomposition rule as the specification words it\<close>

definition indicator :: "bool \<Rightarrow> int" where
  "indicator b = (if b then 1 else 0)"

definition mentions :: "'w env \<Rightarrow> pystr \<Rightarrow> pystr \<Rightarrow> bool" where
  "mentions e kw text = py_in kw (lower e text)"

definition complexity_score_spec :: "'w env \<Rightarrow> Task \<Rightarrow> int" where
  "complexity_score_spec e task =
     indicator (length (requirements task) > 5)
     + indicator (length (py_split e (description_t task)) > 100)
     + indicator (priority task = HIGH \<or> priority task = CRITICAL)
     + indicator (mentions e (ascii ''integra'' @ [231, 227] @ ascii ''o'') (description_t task))
     + indicator (mentions e (ascii ''api'') (description_t task))"

definition complexity_class_spec :: "'w env \<Rightarrow> Task \<Rightarrow> string" where
  "complexity_class_spec e task =
     (if complexity_score_spec e task \<ge> 3 then ''high''
      else if complexity_score_spec e task \<ge> 1 then ''medium''
      else ''low'')"

section \<open>\<open>ExecutionAgent\<close>\<close>

text \<open>\<open>ExecutionResult.__post_init__\<close>: an empty identifier is replaced by a fresh UUID.\<close>

definition ExecutionResult_post_init ::
  "'w env \<Rightarrow> ExecutionResult \<Rightarrow> 'w \<Rightarrow> ExecutionResult \<times> 'w" where
  "ExecutionResult_post_init e r w =
     (if id_er r = [] then (let (u, w') = uuid4 e w in (r\<lparr>id_er := u\<rparr>, w')) else (r, w))"

text \<open>
  The registry \<open>execution_strategies\<close> maps a category to a work function. A work
  function reads and advances the world (the source's ones sleep and draw random
  numbers) and either returns an output or raises; \<open>Inl msg\<close> is an exception whose
  \<open>str\<close> is \<open>msg\<close>. The registry is a parameter of the model.
\<close>

type_synonym 'w work_function = "SubTask \<Rightarrow> 'w \<Rightarrow> (pystr + pyval) \<times> 'w"

type_synonym 'w registry = "pystr \<rightharpoonup> 'w work_function"

definition any_keyword :: "pystr list \<Rightarrow> pystr \<Rightarrow> bool" where
  "any_keyword keywords s = (\<exists>keyword \<in> set keywords. py_in keyword s)"

text \<open>\<open>_determine_strategy\<close>: the first keyword group that matches the lowered title.\<close>

definition determine_strategy :: "'w env \<Rightarrow> SubTask \<Rightarrow> pystr" where
  "determine_strategy e subtask =
     (let title_lower = lower e (title_st subtask) in
      if any_keyword
             [ascii ''an'' @ [225] @ ascii ''lise'',
              ascii ''analisar'',
              ascii ''requisitos''] title_lower
      then ascii ''an'' @ [225] @ ascii ''lise''
      else if any_keyword
             [ascii ''design'',
              ascii ''arquitetura'',
              ascii ''prototip''] title_lower
      then ascii ''design''
      else if any_keyword
             [ascii ''implementa'',
              ascii ''desenvolv'',
              ascii ''c'' @ [243] @ ascii ''digo'',
              ascii ''m'' @ [243] @ ascii ''dulo''] title_lower
      then ascii ''implementa'' @ [231, 227] @ ascii ''o''
      else if any_keyword
             [ascii ''teste'',
              ascii ''valida'' @ [231, 227] @ ascii ''o'',
              ascii ''verifica'' @ [231, 227] @ ascii ''o''] title_lower
      then ascii ''teste''
      else if any_keyword
             [ascii ''documenta'' @ [231, 227] @ ascii ''o'',
              ascii ''documentar''] title_lower
      then ascii ''documenta'' @ [231, 227] @ ascii ''o''
      else if any_keyword
             [ascii ''setup'',
              ascii ''configurar'',
              ascii ''ambiente''] title_lower
      then ascii ''setup''
      else if any_keyword
             [ascii ''integra'' @ [231, 227] @ ascii ''o'',
              ascii ''integrar''] title_lower
      then ascii ''integra'' @ [231, 227] @ ascii ''o''
      else if any_keyword
             [ascii ''otimiza'' @ [231, 227] @ ascii ''o'',
              ascii ''otimizar'',
              ascii ''performance''] title_lower
      then ascii ''otimiza'' @ [231, 227] @ ascii ''o''
      else ascii ''implementa'' @ [231, 227] @ ascii ''o'')"

text \<open>\<open>int(x)\<close> on a float: truncation towards zero.\<close>

definition py_int :: "real \<Rightarrow> int" where
  "py_int x = (if x \<ge> 0 then \<lfloor>x\<rfloor> else \<lceil>x\<rceil>)"

text \<open>
  \<open>execute_subtask\<close>. The subtask is set to \<open>IN_PROGRESS\<close>, the work function of its
  category is called, and the outcome is wrapped in an \<open>ExecutionResult\<close>. A missing
  registry entry raises \<open>KeyError\<close> inside the \<open>try\<close>, whose \<open>str\<close> is the quoted key.
  Both branches measure the time, update the agent's metrics and log. The function
  returns the result, the mutated subtask, the agent and the world.
\<close>

definition execute_subtask ::
  "'w env \<Rightarrow> 'w registry \<Rightarrow> BaseAgent \<Rightarrow> SubTask \<Rightarrow> 'w
   \<Rightarrow> ExecutionResult \<times> SubTask \<times> BaseAgent \<times> 'w" where
  "execute_subtask e execution_strategies a subtask w =
     (let (start_time, w) = time_time e w;
          a = log_activity a (SubtaskStarted (title_st subtask));
          subtask = subtask\<lparr>status_st := IN_PROGRESS\<rparr>;
          strategy = determine_strategy e subtask;
          (outcome, w) =
            (case execution_strategies strategy of
               None \<Rightarrow> (Inl ([39] @ strategy @ [39]), w)
             | Some work \<Rightarrow> work subtask w);
          (t1, w) = time_time e w;
          execution_time = py_int (t1 - start_time);
          (stamp, w) = datetime_now e w
      in case outcome of
           Inr out \<Rightarrow>
             (let (result, w) = ExecutionResult_post_init e
                    \<lparr>id_er = [], task_id_er = parent_task_id subtask,
                     subtask_id = Some (id_st subtask), success = True, output_er = out,
                     error_message = None, execution_time = execution_time,
                     timestamp_er = stamp\<rparr> w;
                  a = agent_update_performance a (real_of_int execution_time) True;
                  a = log_activity a (SubtaskSucceeded (title_st subtask))
              in (result, subtask, a, w))
         | Inl msg \<Rightarrow>
             (let (result, w) = ExecutionResult_post_init e
                    \<lparr>id_er = [], task_id_er = parent_task_id subtask,
                     subtask_id = Some (id_st subtask), success = False, output_er = VNone,
                     error_message = Some msg, execution_time = execution_time,
                     timestamp_er = stamp\<rparr> w;
                  a = agent_update_performance a (real_of_int execution_time) False;
                  a = log_activity a (SubtaskError (title_st subtask) (Raised msg))
              in (result, subtask, a, w)))"

text \<open>
  \<open>_get_ready_subtasks\<close>. The source returns the subtask objects, and \<open>process\<close> then
  mutates their status; the model returns their positions in the plan's list.
\<close>

definition get_ready_subtasks :: "SubTask list \<Rightarrow> pystr set \<Rightarrow> nat list" where
  "get_ready_subtasks sts executed =
     filter (\<lambda>i. \<not> (id_st (sts ! i) \<in> executed \<or> status_st (sts ! i) = COMPLETED)
                \<and> (\<forall>dep_id \<in> set (dependencies (sts ! i)). dep_id \<in> executed))
       [0 ..< length sts]"

text \<open>The variables of \<open>ExecutionAgent.process\<close> that change while it runs.\<close>

record 'w exec_state =
  results :: "ExecutionResult list"
  executed_subtasks :: "pystr set"
  plan_subtasks :: "SubTask list"
  executor :: BaseAgent
  world :: 'w

text \<open>The body of \<open>for subtask in ready_subtasks\<close>, for the subtask at position \<open>i\<close>.\<close>

definition run_subtask :: "'w env \<Rightarrow> 'w registry \<Rightarrow> nat \<Rightarrow> 'w exec_state \<Rightarrow> 'w exec_state" where
  "run_subtask e reg i s =
     (let (result, subtask, a, w) =
            execute_subtask e reg (executor s) (plan_subtasks s ! i) (world s);
          s = s\<lparr>results := results s @ [result], executor := a, world := w\<rparr>
      in if success result
         then s\<lparr>executed_subtasks := insert (id_st subtask) (executed_subtasks s),
                plan_subtasks := (plan_subtasks s)[i := subtask\<lparr>status_st := COMPLETED\<rparr>]\<rparr>
         else s\<lparr>plan_subtasks := (plan_subtasks s)[i := subtask\<lparr>status_st := FAILED\<rparr>],
                executor := log_activity a (SubtaskFailed (title_st subtask))\<rparr>)"

text \<open>
  The \<open>while\<close> loop of \<open>process\<close>. Nothing bounds the number of rounds, so the model
  takes fuel: \<open>None\<close> means the loop is still running after \<open>fuel\<close> tests of its
  condition.
\<close>

fun execution_rounds ::
  "'w env \<Rightarrow> 'w registry \<Rightarrow> nat \<Rightarrow> 'w exec_state \<Rightarrow> 'w exec_state option" where
  "execution_rounds e reg 0 s = None"
| "execution_rounds e reg (Suc fuel) s =
     (if card (executed_subtasks s) < length (plan_subtasks s)
      then (let ready_subtasks = get_ready_subtasks (plan_subtasks s) (executed_subtasks s)
            in if ready_subtasks = []
               then Some (s\<lparr>executor := log_activity (executor s) CircularDependency\<rparr>)
               else execution_rounds e reg fuel (fold (run_subtask e reg) ready_subtasks s))
      else Some s)"

text \<open>\<open>ExecutionAgent.process\<close>: the returned list and the final state.\<close>

definition executor_process ::
  "'w env \<Rightarrow> 'w registry \<Rightarrow> nat \<Rightarrow> BaseAgent \<Rightarrow> Plan \<Rightarrow> 'w
   \<Rightarrow> (ExecutionResult list \<times> 'w exec_state) option" where
  "executor_process e reg fuel a plan w =
     (let a = log_activity a (ExecutionStarted (id_p plan));
          s = \<lparr>results = [], executed_subtasks = {}, plan_subtasks = subtasks plan,
               executor = a, world = w\<rparr>
      in case execution_rounds e reg fuel s of
           None \<Rightarrow> None
         | Some s \<Rightarrow>
             Some (results s,
                   s\<lparr>executor := log_activity (executor s)
                      (ExecutionDone (length (subtasks plan))
                         (length (filter success (results s)))
                         (length (filter (\<lambda>r. \<not> success r) (results s))))\<rparr>))"

subsection \<open>Dependency cycles and work functions that never fail\<close>

text \<open>\<open>depends_on sts a b\<close>: a subtask with identifier \<open>a\<close> lists \<open>b\<close> as a dependency.\<close>

definition depends_on :: "SubTask list \<Rightarrow> pystr \<Rightarrow> pystr \<Rightarrow> bool" where
  "depends_on sts a b = (\<exists>s \<in> set sts. id_st s = a \<and> b \<in> set (dependencies s))"

fun dependency_path :: "SubTask list \<Rightarrow> pystr list \<Rightarrow> bool" where
  "dependency_path sts [] = True"
| "dependency_path sts [a] = True"
| "dependency_path sts (a # b # rest) = (depends_on sts a b \<and> dependency_path sts (b # rest))"

text \<open>A cycle: a non-empty list of identifiers, each depending on the next, the last on the first.\<close>

definition dependency_cycle :: "SubTask list \<Rightarrow> pystr list \<Rightarrow> bool" where
  "dependency_cycle sts cyc = (cyc \<noteq> [] \<and> dependency_path sts (cyc @ [hd cyc]))"

text \<open>
  Every category that \<open>_determine_strategy\<close> can select is registered and its work
  function returns, as the eight work functions of the source do.
\<close>

definition never_fails :: "'w env \<Rightarrow> 'w registry \<Rightarrow> bool" where
  "never_fails e reg =
     (\<forall>subtask. \<exists>work. reg (determine_strategy e subtask) = Some work
        \<and> (\<forall>st w. \<exists>out w'. work st w = (Inr out, w')))"

text \<open>What \<open>process\<close> never changes in the plan's subtasks: identifiers and dependencies.\<close>

definition shape :: "SubTask list \<Rightarrow> (pystr \<times> pystr list) list" where
  "shape sts = map (\<lambda>s. (id_st s, dependencies s)) sts"

text \<open>
  The positions of the plan whose identifier is not yet executed, and what holds between
  rounds when the identifiers in \<open>C\<close> lie on a dependency cycle of the plan \<open>sts0\<close> and
  no dispatch fails: there are at least as many results as executed identifiers, results
  and uncovered positions together never exceed the plan, and they fall short of it as
  soon as an identifier of \<open>C\<close> is executed.
\<close>

definition uncovered :: "SubTask list \<Rightarrow> pystr set \<Rightarrow> nat set" where
  "uncovered sts executed = {i. i < length sts \<and> id_st (sts ! i) \<notin> executed}"

definition cycle_invariant :: "SubTask list \<Rightarrow> pystr set \<Rightarrow> 'w exec_state \<Rightarrow> bool" where
  "cycle_invariant sts0 C s =
     (shape (plan_subtasks s) = shape sts0
      \<and> finite (executed_subtasks s)
      \<and> card (executed_subtasks s) \<le> length (results s)
      \<and> length (results s) + card (uncovered sts0 (executed_subtasks s)) \<le> length sts0
      \<and> (executed_subtasks s \<inter> C = {}
          \<or> length (results s) + card (uncovered sts0 (executed_subtasks s)) < length sts0))"

section \<open>\<open>VerificationAgent\<close>\<close>

record VerificationResult =
  id_vr :: pystr
  task_id_vr :: pystr
  passed :: bool
  quality_score :: real
  accuracy_score :: real
  issues_found :: "pystr list"
  recommendations :: "pystr list"
  timestamp_vr :: real

text \<open>The dictionary that each per-result check returns.\<close>

record verification =
  result_id :: pystr
  quality_score_v :: real
  accuracy_score_v :: real
  issues_v :: "pystr list"
  type_v :: pystr

definition VerificationResult_post_init ::
  "'w env \<Rightarrow> VerificationResult \<Rightarrow> 'w \<Rightarrow> VerificationResult \<times> 'w" where
  "VerificationResult_post_init e r w =
     (if id_vr r = [] then (let (u, w') = uuid4 e w in (r\<lparr>id_vr := u\<rparr>, w')) else (r, w))"

subsection \<open>The per-category checks\<close>

text \<open>
  Each check reads \<open>result.output\<close> as a dictionary. The operations that raise on a
  value of the wrong type (\<open>len\<close>, a comparison with a number, \<open>in\<close>, \<open>.get\<close>) are
  sequenced with \<open>and_then\<close>, in the order of the source.
\<close>

definition verify_analysis :: "'w env \<Rightarrow> ExecutionResult \<Rightarrow> exn + verification" where
  "verify_analysis e result =
     and_then (as_dict (output_er result)) (\<lambda>output.
       let required_fields =
             [ascii ''requirements_identified'', ascii ''stakeholders'', ascii ''constraints'',
              ascii ''risks''];
           issues = concat (map (\<lambda>field.
             if (case map_of output field of None \<Rightarrow> True | Some v \<Rightarrow> \<not> truthy v)
             then [(ascii ''Campo obrigat'' @ [243] @ ascii ''rio ausente ou vazio: '') @ field] else []) required_fields);
           requirements = dict_get output (ascii ''requirements_identified'') (VList [])
       in and_then (py_len requirements) (\<lambda>n.
            let issues = (if n < 3
                  then issues @ [(ascii ''N'' @ [250] @ ascii ''mero insuficiente de requisitos identificados'')]
                  else issues);
                quality_score = max 0 (1 - real (length issues) * 0.2);
                accuracy_score = (if n \<ge> 3 then 0.9 else 0.6)
            in Inr \<lparr>result_id = id_er result, quality_score_v = quality_score,
                     accuracy_score_v = accuracy_score, issues_v = issues,
                     type_v = ascii ''analysis''\<rparr>))"

definition verify_design :: "'w env \<Rightarrow> ExecutionResult \<Rightarrow> exn + verification" where
  "verify_design e result =
     and_then (as_dict (output_er result)) (\<lambda>output.
       let issues = (if map_of output (ascii ''architecture_pattern'') = None
             then [(ascii ''Padr'' @ [227] @ ascii ''o de arquitetura n'' @ [227] @ ascii ''o especificado'')] else []);
           components = dict_get output (ascii ''components'') (VList [])
       in and_then (py_len components) (\<lambda>n.
            let issues = (if n < 2
                  then issues @ [(ascii ''N'' @ [250] @ ascii ''mero insuficiente de componentes definidos'')]
                  else issues);
                interfaces = dict_get output (ascii ''interfaces'') (VList []);
                issues = (if \<not> truthy interfaces
                  then issues @ [(ascii ''Interfaces n'' @ [227] @ ascii ''o definidas'')] else issues);
                quality_score = max 0 (1 - real (length issues) * 0.25);
                accuracy_score = (if n \<ge> 3 then 0.85 else 0.7)
            in Inr \<lparr>result_id = id_er result, quality_score_v = quality_score,
                     accuracy_score_v = accuracy_score, issues_v = issues,
                     type_v = ascii ''design''\<rparr>))"

definition verify_implementation :: "'w env \<Rightarrow> ExecutionResult \<Rightarrow> exn + verification" where
  "verify_implementation e result =
     and_then (as_dict (output_er result)) (\<lambda>output.
       let files_created = dict_get output (ascii ''files_created'') (VList [])
       in and_then (py_len files_created) (\<lambda>n.
            let issues = (if n < 3
                  then [(ascii ''N'' @ [250] @ ascii ''mero insuficiente de arquivos criados'')] else []);
                code_quality = dict_get output (ascii ''code_quality_score'') (VFloat 0)
            in and_then (py_number code_quality) (\<lambda>cq.
                 let issues = (if cq < 0.7
                       then issues @ [(ascii ''Qualidade do c'' @ [243] @ ascii ''digo baixa: '') @ format_fixed e 2 cq]
                       else issues);
                     lines_of_code = dict_get output (ascii ''lines_of_code'') (VInt 0)
                 in and_then (py_number lines_of_code) (\<lambda>loc.
                      let issues = (if loc < 100
                            then issues @ [(ascii ''Implementa'' @ [231, 227] @ ascii ''o muito pequena'')] else issues);
                          quality_score = min 1 (cq + 0.1);
                          accuracy_score = (if loc \<ge> 200 then 0.9 else 0.7)
                      in Inr \<lparr>result_id = id_er result, quality_score_v = quality_score,
                               accuracy_score_v = accuracy_score, issues_v = issues,
                               type_v = ascii ''implementation''\<rparr>))))"

text \<open>
  In \<open>_verify_testing\<close> the variable \<open>success_rate\<close> only exists when
  \<open>tests_executed > 0\<close>; the model keeps it as an option.
\<close>

definition verify_testing :: "'w env \<Rightarrow> ExecutionResult \<Rightarrow> exn + verification" where
  "verify_testing e result =
     and_then (as_dict (output_er result)) (\<lambda>output.
       let tests_executed = dict_get output (ascii ''tests_executed'') (VInt 0);
           tests_passed = dict_get output (ascii ''tests_passed'') (VInt 0);
           coverage = dict_get output (ascii ''coverage_percentage'') (VInt 0)
       in and_then (py_number coverage) (\<lambda>cov.
            let issues = (if cov < 80
                  then [ascii ''Cobertura de testes baixa: '' @ format_fixed e 1 cov @ ascii ''%'']
                  else [])
            in and_then (py_number tests_executed) (\<lambda>executed.
                 and_then (if executed > 0
                           then and_then (py_number tests_passed)
                                  (\<lambda>passed_count. Inr (Some (passed_count / executed)))
                           else Inr None) (\<lambda>success_rate.
                   let issues = (case success_rate of
                           Some rate \<Rightarrow>
                             (if rate < 0.9
                              then issues @ [ascii ''Taxa de sucesso dos testes baixa: ''
                                               @ format_percent e 1 rate]
                              else issues)
                         | None \<Rightarrow> issues @ [ascii ''Nenhum teste executado'']);
                       bugs_found = dict_get output (ascii ''bugs_found'') (VInt 0)
                   in and_then (py_number bugs_found) (\<lambda>bugs.
                        let issues = (if bugs > 3
                              then issues @ [ascii ''Muitos bugs encontrados: '' @ str_of e bugs_found]
                              else issues);
                            quality_score = min 1 (cov / 100 + 0.1);
                            accuracy_score = (case success_rate of Some rate \<Rightarrow> rate
                                              | None \<Rightarrow> 0)
                        in Inr \<lparr>result_id = id_er result, quality_score_v = quality_score,
                                 accuracy_score_v = accuracy_score, issues_v = issues,
                                 type_v = ascii ''testing''\<rparr>)))))"

fun collect_missing :: "pystr list \<Rightarrow> pyval \<Rightarrow> exn + pystr list" where
  "collect_missing [] sections = Inr []"
| "collect_missing (s # rest) sections =
     and_then (py_contains s sections) (\<lambda>present.
       and_then (collect_missing rest sections) (\<lambda>missing.
         Inr (if present then missing else s # missing)))"

fun py_join :: "pystr \<Rightarrow> pystr list \<Rightarrow> pystr" where
  "py_join sep [] = []"
| "py_join sep [s] = s"
| "py_join sep (s # rest) = s @ sep @ py_join sep rest"

definition verify_documentation :: "'w env \<Rightarrow> ExecutionResult \<Rightarrow> exn + verification" where
  "verify_documentation e result =
     and_then (as_dict (output_er result)) (\<lambda>output.
       let documents = dict_get output (ascii ''documents_created'') (VList [])
       in and_then (py_len documents) (\<lambda>n.
            let issues = (if n < 2
                  then [(ascii ''N'' @ [250] @ ascii ''mero insuficiente de documentos criados'')] else []);
                pages = dict_get output (ascii ''pages_written'') (VInt 0)
            in and_then (py_number pages) (\<lambda>pg.
                 let issues = (if pg < 10
                       then issues @ [(ascii ''Documenta'' @ [231, 227] @ ascii ''o muito breve'')] else issues);
                     sections = dict_get output (ascii ''sections'') (VList []);
                     required_sections = [(ascii ''Introdu'' @ [231, 227] @ ascii ''o''), (ascii ''Instala'' @ [231, 227] @ ascii ''o''), ascii ''Uso'']
                 in and_then (collect_missing required_sections sections) (\<lambda>missing_sections.
                      let issues = (if missing_sections \<noteq> []
                            then issues @ [(ascii ''Se'' @ [231, 245] @ ascii ''es obrigat'' @ [243] @ ascii ''rias ausentes: '')
                                             @ py_join (ascii '', '') missing_sections]
                            else issues);
                          quality_score = max 0 (1 - real (length issues) * 0.2);
                          accuracy_score = (if pg \<ge> 20 then 0.9 else 0.7)
                      in Inr \<lparr>result_id = id_er result, quality_score_v = quality_score,
                               accuracy_score_v = accuracy_score, issues_v = issues,
                               type_v = ascii ''documentation''\<rparr>))))"

definition verify_setup :: "'w env \<Rightarrow> ExecutionResult \<Rightarrow> exn + verification" where
  "verify_setup e result =
     and_then (as_dict (output_er result)) (\<lambda>output.
       let issues = (if \<not> truthy (dict_get output (ascii ''environment_configured'')
                                     (VBool False))
             then [(ascii ''Ambiente n'' @ [227] @ ascii ''o configurado adequadamente'')] else []);
           tools = dict_get output (ascii ''tools_installed'') (VList [])
       in and_then (py_len tools) (\<lambda>n.
            let issues = (if n < 3
                  then issues @ [ascii ''Ferramentas insuficientes instaladas''] else issues);
                config_files = dict_get output (ascii ''config_files'') (VList []);
                issues = (if \<not> truthy config_files
                  then issues @ [(ascii ''Arquivos de configura'' @ [231, 227] @ ascii ''o n'' @ [227] @ ascii ''o criados'')] else issues);
                quality_score = max 0 (1 - real (length issues) * 0.3);
                accuracy_score = (if n \<ge> 5 then 0.95 else 0.8)
            in Inr \<lparr>result_id = id_er result, quality_score_v = quality_score,
                     accuracy_score_v = accuracy_score, issues_v = issues,
                     type_v = ascii ''setup''\<rparr>))"

definition verify_integration :: "'w env \<Rightarrow> ExecutionResult \<Rightarrow> exn + verification" where
  "verify_integration e result =
     and_then (as_dict (output_er result)) (\<lambda>output.
       let modules = dict_get output (ascii ''modules_integrated'') (VList [])
       in and_then (py_len modules) (\<lambda>n.
            let issues = (if n < 2
                  then [(ascii ''N'' @ [250] @ ascii ''mero insuficiente de m'' @ [243] @ ascii ''dulos integrados'')] else []);
                issues = (if \<not> truthy (dict_get output (ascii ''data_flow_verified'')
                                          (VBool False))
                  then issues @ [(ascii ''Fluxo de dados n'' @ [227] @ ascii ''o verificado'')] else issues);
                integration_tests = dict_get output (ascii ''integration_tests_passed'') (VInt 0)
            in and_then (py_number integration_tests) (\<lambda>tests.
                 let issues = (if tests < 5
                       then issues @ [(ascii ''Testes de integra'' @ [231, 227] @ ascii ''o insuficientes'')] else issues);
                     quality_score = max 0 (1 - real (length issues) * 0.25);
                     accuracy_score = (if tests \<ge> 10 then 0.9 else 0.7)
                 in Inr \<lparr>result_id = id_er result, quality_score_v = quality_score,
                          accuracy_score_v = accuracy_score, issues_v = issues,
                          type_v = ascii ''integration''\<rparr>)))"

definition verify_optimization :: "'w env \<Rightarrow> ExecutionResult \<Rightarrow> exn + verification" where
  "verify_optimization e result =
     and_then (as_dict (output_er result)) (\<lambda>output.
       let optimizations = dict_get output (ascii ''optimizations_applied'') (VList [])
       in and_then (py_len optimizations) (\<lambda>n.
            let issues = (if n < 2
                  then [(ascii ''N'' @ [250] @ ascii ''mero insuficiente de otimiza'' @ [231, 245] @ ascii ''es aplicadas'')] else []);
                improvements = dict_get output (ascii ''performance_improvements'') (VDict []);
                issues = (if \<not> truthy improvements
                  then issues @ [(ascii ''Melhorias de performance n'' @ [227] @ ascii ''o documentadas'')] else issues)
            in and_then (as_dict improvements) (\<lambda>improvements.
                 let response_time_improvement =
                       dict_get improvements (ascii ''response_time'') (VStr (ascii ''0% faster''))
                 in and_then (py_contains (ascii ''faster'') response_time_improvement)
                      (\<lambda>faster.
                        let issues = (if \<not> faster
                              then issues @ [(ascii ''Tempo de resposta n'' @ [227] @ ascii ''o melhorou'')] else issues);
                            quality_score = max 0 (1 - real (length issues) * 0.2);
                            accuracy_score = (if n \<ge> 3 then 0.85 else 0.7)
                        in Inr \<lparr>result_id = id_er result, quality_score_v = quality_score,
                                 accuracy_score_v = accuracy_score, issues_v = issues,
                                 type_v = ascii ''optimization''\<rparr>))))"

definition verify_generic :: "'w env \<Rightarrow> ExecutionResult \<Rightarrow> exn + verification" where
  "verify_generic e result =
     (let issues = (if \<not> truthy (output_er result) then [ascii ''Resultado vazio''] else []);
          issues = (if execution_time result > 300
            then issues @ [(ascii ''Tempo de execu'' @ [231, 227] @ ascii ''o muito longo'')] else issues);
          quality_score = (if issues = [] then 0.7 else 0.4);
          accuracy_score = 0.6
      in Inr \<lparr>result_id = id_er result, quality_score_v = quality_score,
               accuracy_score_v = accuracy_score, issues_v = issues,
               type_v = ascii ''generic''\<rparr>)"

text \<open>The registry \<open>verification_criteria\<close> built by \<open>VerificationAgent.__init__\<close>.\<close>

definition verification_criteria ::
  "pystr \<rightharpoonup> ('w env \<Rightarrow> ExecutionResult \<Rightarrow> exn + verification)" where
  "verification_criteria =
     map_of
       [(ascii ''analysis'', verify_analysis),
        (ascii ''design'', verify_design),
        (ascii ''implementation'', verify_implementation),
        (ascii ''testing'', verify_testing),
        (ascii ''documentation'', verify_documentation),
        (ascii ''setup'', verify_setup),
        (ascii ''integration'', verify_integration),
        (ascii ''optimization'', verify_optimization)]"

text \<open>
  \<open>_verify_individual_result\<close>. A falsy output has type \<open>unknown\<close>; a truthy output
  that is not a dictionary has no \<open>get\<close>; a type tag that is a list or a dictionary
  cannot be looked up in the registry (it is unhashable); any other tag that is not a
  registered string falls back to the generic check.
\<close>

definition verify_individual_result ::
  "'w env \<Rightarrow> ExecutionResult \<Rightarrow> exn + verification" where
  "verify_individual_result e result =
     (if \<not> success result
      then Inr \<lparr>result_id = id_er result, quality_score_v = 0, accuracy_score_v = 0,
                issues_v = [(ascii ''Execu'' @ [231, 227] @ ascii ''o falhou: '') @ str_of e
                            (case error_message result of None \<Rightarrow> VNone
                             | Some msg \<Rightarrow> VStr msg)],
                type_v = ascii ''failed_execution''\<rparr>
      else and_then
             (if truthy (output_er result)
              then and_then (as_dict (output_er result))
                     (\<lambda>output. Inr (dict_get output (ascii ''type'') (VStr (ascii ''unknown''))))
              else Inr (VStr (ascii ''unknown'')))
             (\<lambda>output_type.
                case output_type of
                  VStr tag \<Rightarrow>
                    (case verification_criteria tag of
                       Some check \<Rightarrow> check e result
                     | None \<Rightarrow> verify_generic e result)
                | VList xs \<Rightarrow> Inl TypeError
                | VDict d \<Rightarrow> Inl TypeError
                | _ \<Rightarrow> verify_generic e result))"

subsection \<open>Aggregation, issues, recommendations and the verdict\<close>

definition calculate_overall_quality :: "verification list \<Rightarrow> real" where
  "calculate_overall_quality verifications =
     (if verifications = [] then 0
      else sum_list (map quality_score_v verifications) / real (length verifications))"

definition calculate_overall_accuracy :: "verification list \<Rightarrow> real" where
  "calculate_overall_accuracy verifications =
     (if verifications = [] then 0
      else sum_list (map accuracy_score_v verifications) / real (length verifications))"

definition identify_issues ::
  "'w env \<Rightarrow> verification list \<Rightarrow> ExecutionResult list \<Rightarrow> pystr list" where
  "identify_issues e verifications execution_results =
     (let all_issues = concat (map issues_v verifications);
          failed_executions = filter (\<lambda>r. \<not> success r) execution_results;
          all_issues =
            (if real (length failed_executions) > real (length execution_results) * 0.2
             then all_issues @ [(ascii ''Alta taxa de falhas na execu'' @ [231, 227] @ ascii ''o'')] else all_issues);
          total_time = sum_list (map execution_time execution_results);
          all_issues =
            (if total_time > 1800
             then all_issues @ [(ascii ''Tempo total de execu'' @ [231, 227] @ ascii ''o muito longo'')] else all_issues)
      in list_of_set e all_issues)"

definition any_issue :: "'w env \<Rightarrow> pystr \<Rightarrow> pystr list \<Rightarrow> bool" where
  "any_issue e keyword issue_list = (\<exists>issue \<in> set issue_list. py_in keyword (lower e issue))"

definition generate_recommendations ::
  "'w env \<Rightarrow> pystr list \<Rightarrow> verification list \<Rightarrow> pystr list" where
  "generate_recommendations e issue_list verifications =
     (let recommendations = [];
          recommendations =
            (if any_issue e (ascii ''qualidade do c'' @ [243] @ ascii ''digo'') issue_list
             then recommendations
                  @ [(ascii ''Implementar revis'' @ [227] @ ascii ''o de c'' @ [243] @ ascii ''digo mais rigorosa''),
                     (ascii ''Usar ferramentas de an'' @ [225] @ ascii ''lise est'' @ [225] @ ascii ''tica de c'' @ [243] @ ascii ''digo'')]
             else recommendations);
          recommendations =
            (if any_issue e (ascii ''cobertura'') issue_list
             then recommendations
                  @ [ascii ''Aumentar cobertura de testes para pelo menos 80%'',
                     (ascii ''Implementar testes de integra'' @ [231, 227] @ ascii ''o adicionais'')]
             else recommendations);
          recommendations =
            (if any_issue e (ascii ''documenta'' @ [231, 227] @ ascii ''o'') issue_list
             then recommendations
                  @ [(ascii ''Expandir documenta'' @ [231, 227] @ ascii ''o com mais detalhes''),
                     (ascii ''Adicionar exemplos pr'' @ [225] @ ascii ''ticos na documenta'' @ [231, 227] @ ascii ''o'')]
             else recommendations);
          recommendations =
            (if any_issue e (ascii ''tempo'') issue_list
             then recommendations
                  @ [(ascii ''Otimizar processos para reduzir tempo de execu'' @ [231, 227] @ ascii ''o''),
                     (ascii ''Considerar paraleliza'' @ [231, 227] @ ascii ''o de tarefas'')]
             else recommendations);
          low_quality_verifications = filter (\<lambda>v. quality_score_v v < 0.7) verifications;
          recommendations =
            (if real (length low_quality_verifications) > real (length verifications) * 0.3
             then recommendations
                  @ [ascii ''Revisar processo de desenvolvimento para melhorar qualidade'',
                     ascii ''Implementar checkpoints de qualidade mais frequentes'']
             else recommendations)
      in if recommendations = [] then [(ascii ''Manter padr'' @ [227] @ ascii ''o atual de qualidade'')]
         else recommendations)"

definition determine_pass_status :: "'w env \<Rightarrow> real \<Rightarrow> real \<Rightarrow> pystr list \<Rightarrow> bool" where
  "determine_pass_status e quality accuracy issue_list =
     (let meets_quality = (quality \<ge> 0.7);
          meets_accuracy = (accuracy \<ge> 0.8);
          critical_issues =
            filter (\<lambda>issue. \<exists>keyword \<in> set [ascii ''falhou'', (ascii ''cr'' @ [237] @ ascii ''tico''), ascii ''erro fatal''].
                               py_in keyword (lower e issue)) issue_list;
          no_critical_issues = (length critical_issues = 0)
      in meets_quality \<and> meets_accuracy \<and> no_critical_issues)"

text \<open>The loop over the results; the first exception ends it.\<close>

fun verify_all :: "'w env \<Rightarrow> ExecutionResult list \<Rightarrow> exn + verification list" where
  "verify_all e [] = Inr []"
| "verify_all e (r # rs) =
     and_then (verify_individual_result e r) (\<lambda>v.
       and_then (verify_all e rs) (\<lambda>vs. Inr (v # vs)))"

text \<open>\<open>VerificationAgent.process\<close>; the \<open>except\<close> branch records the failure and re-raises.\<close>

definition verifier_process ::
  "'w env \<Rightarrow> BaseAgent \<Rightarrow> ExecutionResult list \<Rightarrow> Task \<Rightarrow> 'w
   \<Rightarrow> (exn + VerificationResult) \<times> BaseAgent \<times> 'w" where
  "verifier_process e a execution_results task w =
     (let (start_time, w) = time_time e w;
          a = log_activity a (VerificationStarted (title_t task))
      in case verify_all e execution_results of
           Inl err \<Rightarrow>
             (let (t1, w) = time_time e w;
                  a = agent_update_performance a (t1 - start_time) False;
                  a = log_activity a (VerificationError err)
              in (Inl err, a, w))
         | Inr individual_verifications \<Rightarrow>
             (let overall_quality = calculate_overall_quality individual_verifications;
                  overall_accuracy = calculate_overall_accuracy individual_verifications;
                  issue_list = identify_issues e individual_verifications execution_results;
                  recs = generate_recommendations e issue_list individual_verifications;
                  verdict = determine_pass_status e overall_quality overall_accuracy issue_list;
                  (stamp, w) = datetime_now e w;
                  (verification_result, w) = VerificationResult_post_init e
                     \<lparr>id_vr = [], task_id_vr = id_t task, passed = verdict,
                      quality_score = overall_quality, accuracy_score = overall_accuracy,
                      issues_found = issue_list, recommendations = recs,
                      timestamp_vr = stamp\<rparr> w;
                  (t1, w) = time_time e w;
                  a = agent_update_performance a (t1 - start_time) True;
                  a = log_activity a
                        (VerificationDone verdict overall_quality overall_accuracy
                           (length issue_list))
              in (Inr verification_result, a, w)))"

section \<open>\<open>MultiAgentSystem\<close>\<close>

text \<open>
  The system owns the three agents and the system metrics (\<open>task_history\<close> is never
  written). The registry of the execution agent and the fuel of its loop are parameters,
  as in \<open>executor_process\<close>.
\<close>

record MultiAgentSystem =
  planner :: BaseAgent
  executor_agent :: BaseAgent
  verifier :: BaseAgent
  system_metrics :: SystemMetrics

text \<open>The three dictionaries that \<open>process_task\<close> can return, with their nested entries flattened.\<close>

record success_result =
  task_id_sr :: pystr
  status_sr :: string
  completion_time_sr :: real
  replanning_attempts_sr :: int
  plan_id_sr :: pystr
  subtasks_count :: nat
  estimated_time_sr :: int
  actual_time :: int
  total_subtasks_sr :: nat
  successful_subtasks_sr :: nat
  failed_subtasks_sr :: nat
  results_sr :: "ExecutionResult list"
  passed_sr :: bool
  quality_score_sr :: real
  accuracy_score_sr :: real
  issues_count :: nat
  recommendations_count :: nat
  planner_performance :: PerformanceMetrics
  executor_performance :: PerformanceMetrics
  verifier_performance :: PerformanceMetrics

record failure_result =
  task_id_fr :: pystr
  status_fr :: string
  completion_time_fr :: real
  replanning_attempts_fr :: int
  failure_reason :: string
  quality_score_fr :: real
  accuracy_score_fr :: real
  issues_found_fr :: "pystr list"
  recommendations_fr :: "pystr list"
  total_subtasks_fr :: nat
  successful_subtasks_fr :: nat
  failed_subtasks_fr :: nat

record error_result =
  task_id_err :: pystr
  status_err :: string
  error_err :: exn
  completion_time_err :: real
  replanning_attempts_err :: int

datatype outcome = Succeeded success_result | VerificationFailed failure_result
  | Faulted error_result

definition create_success_result ::
  "MultiAgentSystem \<Rightarrow> Task \<Rightarrow> Plan \<Rightarrow> ExecutionResult list \<Rightarrow> VerificationResult
   \<Rightarrow> real \<Rightarrow> int \<Rightarrow> success_result" where
  "create_success_result sys task plan execution_results verification_result
       completion_time replanning_attempts =
     \<lparr>task_id_sr = id_t task, status_sr = ''completed'',
      completion_time_sr = completion_time, replanning_attempts_sr = replanning_attempts,
      plan_id_sr = id_p plan, subtasks_count = length (subtasks plan),
      estimated_time_sr = estimated_total_time plan,
      actual_time = sum_list (map execution_time execution_results),
      total_subtasks_sr = length execution_results,
      successful_subtasks_sr = length (filter success execution_results),
      failed_subtasks_sr = length (filter (\<lambda>r. \<not> success r) execution_results),
      results_sr = execution_results,
      passed_sr = passed verification_result,
      quality_score_sr = quality_score verification_result,
      accuracy_score_sr = accuracy_score verification_result,
      issues_count = length (issues_found verification_result),
      recommendations_count = length (recommendations verification_result),
      planner_performance = performance_metrics (planner sys),
      executor_performance = performance_metrics (executor_agent sys),
      verifier_performance = performance_metrics (verifier sys)\<rparr>"

definition create_failure_result ::
  "Task \<Rightarrow> Plan \<Rightarrow> ExecutionResult list \<Rightarrow> VerificationResult \<Rightarrow> real \<Rightarrow> int
   \<Rightarrow> failure_result" where
  "create_failure_result task plan execution_results verification_result
       completion_time replanning_attempts =
     \<lparr>task_id_fr = id_t task, status_fr = ''failed'',
      completion_time_fr = completion_time, replanning_attempts_fr = replanning_attempts,
      failure_reason = ''verification_failed_after_max_replanning'',
      quality_score_fr = quality_score verification_result,
      accuracy_score_fr = accuracy_score verification_result,
      issues_found_fr = issues_found verification_result,
      recommendations_fr = recommendations verification_result,
      total_subtasks_fr = length execution_results,
      successful_subtasks_fr = length (filter success execution_results),
      failed_subtasks_fr = length (filter (\<lambda>r. \<not> success r) execution_results)\<rparr>"

text \<open>
  The three phases of one iteration of the loop in \<open>process_task\<close>: planning (or
  re-planning from the issues of the previous verification), execution, verification.
  \<open>Inl\<close> is an exception raised by a phase; \<open>None\<close> means the execution agent is still
  running after \<open>fuel\<close> rounds. The returned plan holds the subtasks as the execution
  agent left them.
\<close>

definition run_phases ::
  "'w env \<Rightarrow> 'w registry \<Rightarrow> nat \<Rightarrow> MultiAgentSystem \<Rightarrow> Task \<Rightarrow> VerificationResult option
   \<Rightarrow> int \<Rightarrow> 'w
   \<Rightarrow> ((exn + Plan \<times> ExecutionResult list \<times> VerificationResult) \<times> MultiAgentSystem \<times> 'w)
       option" where
  "run_phases e reg fuel sys task previous replanning_attempts w =
     (let (planned, p, w) =
            (if replanning_attempts = 0 then planner_process e (planner sys) task w
             else replan e (planner sys) task
                    (case previous of None \<Rightarrow> [] | Some vr \<Rightarrow> issues_found vr) w);
          sys = sys\<lparr>planner := p\<rparr>
      in case planned of
           Inl err \<Rightarrow> Some (Inl err, sys, w)
         | Inr plan \<Rightarrow>
             (case executor_process e reg fuel (executor_agent sys) plan w of
                None \<Rightarrow> None
              | Some (execution_results, es) \<Rightarrow>
                  (let plan = plan\<lparr>subtasks := plan_subtasks es\<rparr>;
                       sys = sys\<lparr>executor_agent := executor es\<rparr>;
                       (verified, v, w) =
                         verifier_process e (verifier sys) execution_results task (world es);
                       sys = sys\<lparr>verifier := v\<rparr>
                   in case verified of
                        Inl err \<Rightarrow> Some (Inl err, sys, w)
                      | Inr verification_result \<Rightarrow>
                          Some (Inr (plan, execution_results, verification_result), sys, w))))"

text \<open>
  The loop \<open>while replanning_attempts <= max_replanning_attempts\<close>. Every iteration
  returns or increments the counter. When the condition fails the function falls off
  its end and returns Python's \<open>None\<close>, the inner \<open>None\<close> here; the outer \<open>None\<close>
  means that the execution agent never returned.
\<close>

function process_loop ::
  "'w env \<Rightarrow> 'w registry \<Rightarrow> nat \<Rightarrow> real \<Rightarrow> int \<Rightarrow> MultiAgentSystem \<Rightarrow> Task
   \<Rightarrow> VerificationResult option \<Rightarrow> int \<Rightarrow> 'w
   \<Rightarrow> (outcome option \<times> MultiAgentSystem \<times> Task \<times> 'w) option" where
  "process_loop e reg fuel start_time max_replanning_attempts sys task previous
       replanning_attempts w =
     (if replanning_attempts \<le> max_replanning_attempts
      then (case run_phases e reg fuel sys task previous replanning_attempts w of
              None \<Rightarrow> None
            | Some (phases, sys, w) \<Rightarrow>
                (case phases of
                   Inl err \<Rightarrow>
                     (let task = task\<lparr>status_t := FAILED\<rparr>;
                          (now, w) = time_time e w;
                          completion_time = now - start_time;
                          error_result =
                            \<lparr>task_id_err = id_t task, status_err = ''failed'', error_err = err,
                             completion_time_err = completion_time,
                             replanning_attempts_err = replanning_attempts\<rparr>;
                          sys = sys\<lparr>system_metrics := update_system_metrics
                                  (system_metrics sys) completion_time False
                                  replanning_attempts\<rparr>
                      in Some (Some (Faulted error_result), sys, task, w))
                 | Inr (plan, execution_results, verification_result) \<Rightarrow>
                     (if passed verification_result
                      then (let task = task\<lparr>status_t := COMPLETED\<rparr>;
                                (now, w) = time_time e w;
                                completion_time = now - start_time;
                                result = create_success_result sys task plan execution_results
                                           verification_result completion_time
                                           replanning_attempts;
                                sys = sys\<lparr>system_metrics := update_system_metrics
                                        (system_metrics sys) completion_time True
                                        replanning_attempts\<rparr>
                            in Some (Some (Succeeded result), sys, task, w))
                      else if replanning_attempts < max_replanning_attempts
                      then process_loop e reg fuel start_time max_replanning_attempts sys
                             (task\<lparr>status_t := NEEDS_REPLANNING\<rparr>)
                             (Some verification_result) (replanning_attempts + 1) w
                      else (let task = task\<lparr>status_t := FAILED\<rparr>;
                                (now, w) = time_time e w;
                                completion_time = now - start_time;
                                result = create_failure_result task plan execution_results
                                           verification_result completion_time
                                           replanning_attempts;
                                sys = sys\<lparr>system_metrics := update_system_metrics
                                        (system_metrics sys) completion_time False
                                        replanning_attempts\<rparr>
                            in Some (Some (VerificationFailed result), sys, task, w)))))
      else Some (None, sys, task, w))"
  by pat_completeness auto
termination
  by (relation "measure (\<lambda>(e, reg, fuel, start_time, max_replanning_attempts, sys, task,
        previous, replanning_attempts, w).
        nat (max_replanning_attempts + 1 - replanning_attempts))") auto

declare process_loop.simps [simp del]

text \<open>\<open>MultiAgentSystem.process_task\<close>.\<close>

definition process_task ::
  "'w env \<Rightarrow> 'w registry \<Rightarrow> nat \<Rightarrow> MultiAgentSystem \<Rightarrow> Task \<Rightarrow> int \<Rightarrow> 'w
   \<Rightarrow> (outcome option \<times> MultiAgentSystem \<times> Task \<times> 'w) option" where
  "process_task e reg fuel sys task max_replanning_attempts w =
     (let (start_time, w) = time_time e w;
          task = task\<lparr>status_t := IN_PROGRESS\<rparr>
      in process_loop e reg fuel start_time max_replanning_attempts sys task None 0 w)"

text \<open>The entries that \<open>replan\<close> writes to the planner's activity log.\<close>

fun is_replanning :: "activity \<Rightarrow> bool" where
  "is_replanning (Replanning title issue_list) = True"
| "is_replanning act = False"

section \<open>Concrete inputs\<close>

text \<open>
  A runtime for evaluating the agents on concrete inputs: \<open>lower\<close> maps the ASCII
  capitals, as \<open>str.lower\<close> does on ASCII text; a space is the only whitespace;
  formatted floats are printed as a placeholder; a set is listed in order of first
  occurrence; the clocks stand still; the world is the number of work-function calls made
  so far.
\<close>

definition ascii_lower :: "pystr \<Rightarrow> pystr" where
  "ascii_lower s = map (\<lambda>c. if 65 \<le> c \<and> c \<le> 90 then c + 32 else c) s"

definition demo_env :: "nat env" where
  "demo_env =
     \<lparr>lower = ascii_lower, isspace = (\<lambda>c. c = 32),
      format_fixed = (\<lambda>n x. ascii ''#''), format_percent = (\<lambda>n x. ascii ''#%''),
      str_of = (\<lambda>v. case v of VStr s \<Rightarrow> s | VNone \<Rightarrow> ascii ''None''
                 | VInt i \<Rightarrow> (if i < 0 then ascii ''-'' else []) @ str_nat (nat \<bar>i\<bar>)
                 | _ \<Rightarrow> ascii ''#''),
      list_of_set = remdups,
      time_time = (\<lambda>w. (0, w)), datetime_now = (\<lambda>w. (0, w)),
      uuid4 = (\<lambda>w. (ascii ''uuid'', w))\<rparr>"

definition demo_agent :: BaseAgent where
  "demo_agent =
     \<lparr>id_a = ascii ''agent'', performance_metrics = initial_metrics, activity_log = []\<rparr>"

text \<open>A work function that raises on the first call ever made and returns afterwards.\<close>

definition flaky :: "nat work_function" where
  "flaky subtask w =
     (if w = 0 then (Inl (ascii ''boom''), Suc w) else (Inr (VDict []), Suc w))"

definition flaky_registry :: "nat registry" where
  "flaky_registry = [ascii ''implementa'' @ [231, 227] @ ascii ''o'' \<mapsto> flaky]"

text \<open>A registry that has a work function for every category, none of which raises.\<close>

definition reliable_registry :: "nat registry" where
  "reliable_registry = (\<lambda>category. Some (\<lambda>subtask w. (Inr (VDict []), Suc w)))"

definition demo_subtask :: "string \<Rightarrow> string \<Rightarrow> string list \<Rightarrow> SubTask" where
  "demo_subtask ident title deps =
     \<lparr>id_st = ascii ident, parent_task_id = ascii ''t'', title_st = ascii title,
      description_st = [], order_st = 1, status_st = PENDING, estimated_time = 10,
      dependencies = map ascii deps\<rparr>"

definition demo_plan :: "SubTask list \<Rightarrow> Plan" where
  "demo_plan sts =
     \<lparr>id_p = ascii ''p'', task_id_p = ascii ''t'', subtasks = sts,
      estimated_total_time = sum_list (map estimated_time sts), created_at_p = 0,
      agent_id = ascii ''agent''\<rparr>"

text \<open>Subtask 2 depends on subtask 1.\<close>

definition two_step_plan :: Plan where
  "two_step_plan =
     demo_plan [demo_subtask ''1'' ''build'' [], demo_subtask ''2'' ''ship'' [''1'']]"

text \<open>Subtasks 1 and 2 depend on each other.\<close>

definition two_cycle_plan :: Plan where
  "two_cycle_plan =
     demo_plan [demo_subtask ''1'' ''build'' [''2''], demo_subtask ''2'' ''ship'' [''1'']]"

text \<open>Subtask 1 is free; subtasks 2 and 3 depend on each other.\<close>

definition blocked_plan :: Plan where
  "blocked_plan =
     demo_plan [demo_subtask ''1'' ''build'' [], demo_subtask ''2'' ''pack'' [''3''],
                demo_subtask ''3'' ''ship'' [''2'']]"

definition demo_task :: Task where
  "demo_task =
     \<lparr>id_t = ascii ''t'', title_t = ascii ''Login'', description_t = ascii ''Build a login page'',
      priority = LOW, status_t = PENDING, created_at_t = 0, updated_at_t = 0,
      requirements = [ascii ''form'', ascii ''session''], expected_output = ascii ''login''\<rparr>"

text \<open>
  An output that \<open>_execute_testing\<close> can produce: it draws \<open>tests_executed\<close> from
  15 to 50 and, independently, \<open>tests_passed\<close> from 12 to 48.
\<close>

definition testing_result :: ExecutionResult where
  "testing_result =
     \<lparr>id_er = ascii ''r'', task_id_er = ascii ''t'', subtask_id = Some (ascii ''4''),
      success = True,
      output_er = VDict
        [(ascii ''type'', VStr (ascii ''testing'')),
         (ascii ''test_types'', VList [VStr (ascii ''Unit Tests'')]),
         (ascii ''tests_executed'', VInt 15),
         (ascii ''tests_passed'', VInt 48),
         (ascii ''coverage_percentage'', VFloat 90),
         (ascii ''bugs_found'', VInt 0)],
      error_message = None, execution_time = 3, timestamp_er = 0\<rparr>"

definition demo_system :: MultiAgentSystem where
  "demo_system =
     \<lparr>planner = demo_agent\<lparr>id_a := ascii ''planner''\<rparr>,
      executor_agent = demo_agent\<lparr>id_a := ascii ''executor''\<rparr>,
      verifier = demo_agent\<lparr>id_a := ascii ''verifier''\<rparr>,
      system_metrics = initial_system_metrics\<rparr>"

section \<open>Metrics theorems\<close>


lemma tasks_completed_update [simp]:
  "tasks_completed (update_performance m d s) = tasks_completed m + 1"
  by (simp add: update_performance_def Let_def)





text \<open>
  C4. The claim: after every processed work item, replanned or not, the replanning rate
  is the incremental mean of the observation "this item needed a replan". The code only
  touches the rate when the item was replanned. After one replanned item the rate is 1;
  a second item that needs no replan leaves it at 1, where the incremental mean is 1/2.
\<close>

theorem replanning_rate_not_decayed:
  "replanning_rate
     (update_system_metrics (update_system_metrics initial_system_metrics 10 True 1) 5 True 0) = 1
   \<and> incremental_mean_spec
       (replanning_rate (update_system_metrics initial_system_metrics 10 True 1))
       (tasks_processed (update_system_metrics initial_system_metrics 10 True 1)) False = 1/2"
  by (simp add: update_system_metrics_def initial_system_metrics_def incremental_mean_spec_def
      Let_def)

section \<open>Planner theorems\<close>

lemma analyze_complexity_refines:
  "analyze_complexity e task = complexity_class_spec e task"
  by (simp add: analyze_complexity_def complexity_class_spec_def complexity_score_spec_def
      indicator_def mentions_def Let_def)

lemma choose_strategy_range:
  "choose_strategy c p \<in> {''sequential'', ''parallel'', ''hybrid''}"
  by (simp add: choose_strategy_def)

lemma replan_strategy_range:
  "replan_strategy e issues \<in> {''sequential'', ''parallel'', ''hybrid''}"
  by (simp add: replan_strategy_def)

lemma decompose_task_known:
  assumes "strategy \<in> {''sequential'', ''parallel'', ''hybrid''}"
  shows "\<exists>table \<in> {base_subtasks, parallel_subtasks, hybrid_subtasks}.
           decompose_task task strategy = Inr (make_subtasks task table)"
  using assms
  by (auto simp: decompose_task_def planning_strategies_def sequential_planning_def
      parallel_planning_def hybrid_planning_def)

lemma planner_process_result:
  assumes "decompose_task task (choose_strategy (analyze_complexity e task) (priority task))
           = Inr sts"
  shows "\<exists>plan a' w'. planner_process e a task w = (Inr plan, a', w') \<and> subtasks plan = sts"
proof -
  obtain t0 w1 where 1: "time_time e w = (t0, w1)" by (cases "time_time e w")
  obtain c w2 where 2: "datetime_now e w1 = (c, w2)" by (cases "datetime_now e w1")
  obtain u w3 where 3: "uuid4 e w2 = (u, w3)" by (cases "uuid4 e w2")
  obtain t1 w4 where 4: "time_time e w3 = (t1, w4)" by (cases "time_time e w3")
  have "fst (planner_process e a task w) =
      Inr \<lparr>id_p = u, task_id_p = id_t task, subtasks = sts,
           estimated_total_time = sum_list (map estimated_time sts), created_at_p = c,
           agent_id = id_a (log_activity a (PlanningStarted (title_t task)))\<rparr>"
    using assms 1 2 3 4 by (simp add: planner_process_def Plan_post_init_def Let_def)
  then show ?thesis
    by (metis Plan.select_convs(3) prod.collapse)
qed

lemma planner_process_returns:
  "\<exists>plan a' w'. planner_process e a task w = (Inr plan, a', w')
     \<and> decompose_task task (choose_strategy (analyze_complexity e task) (priority task))
         = Inr (subtasks plan)"
proof -
  obtain table where dec:
    "decompose_task task (choose_strategy (analyze_complexity e task) (priority task))
       = Inr (make_subtasks task table)"
    using decompose_task_known [OF choose_strategy_range] by blast
  from planner_process_result [OF dec] obtain plan a' w'
    where run: "planner_process e a task w = (Inr plan, a', w')"
      and sts: "subtasks plan = make_subtasks task table"
    by blast
  from dec sts have "decompose_task task
      (choose_strategy (analyze_complexity e task) (priority task)) = Inr (subtasks plan)"
    by (simp only:)
  with run show ?thesis by blast
qed

text \<open>The estimates that occur in the three tables, and their buffered values.\<close>

lemma buffer_estimate_30: "buffer_estimate 30 = Inr 36" by code_simp
lemma buffer_estimate_40: "buffer_estimate 40 = Inr 48" by code_simp
lemma buffer_estimate_45: "buffer_estimate 45 = Inr 54" by code_simp
lemma buffer_estimate_60: "buffer_estimate 60 = Inr 72" by code_simp
lemma buffer_estimate_75: "buffer_estimate 75 = Inr 90" by code_simp
lemma buffer_estimate_90: "buffer_estimate 90 = Inr 108" by code_simp
lemma buffer_estimate_120: "buffer_estimate 120 = Inr 144" by code_simp
lemma round_30: "round (real_of_int 30 * 1.2) = 36" by (simp add: round_def)
lemma round_40: "round (real_of_int 40 * 1.2) = 48" by (simp add: round_def)
lemma round_45: "round (real_of_int 45 * 1.2) = 54" by (simp add: round_def)
lemma round_60: "round (real_of_int 60 * 1.2) = 72" by (simp add: round_def)
lemma round_75: "round (real_of_int 75 * 1.2) = 90" by (simp add: round_def)
lemma round_90: "round (real_of_int 90 * 1.2) = 108" by (simp add: round_def)
lemma round_120: "round (real_of_int 120 * 1.2) = 144" by (simp add: round_def)

lemma buffer_estimate_rounds:
  assumes "t \<in> {30, 40, 45, 60, 75, 90, 120}"
  shows "buffer_estimate t = Inr (round (real_of_int t * 1.2))"
proof -
  consider "t = 30" | "t = 40" | "t = 45" | "t = 60" | "t = 75" | "t = 90" | "t = 120"
    using assms by blast
  then show ?thesis
  proof cases
    case 1 then show ?thesis by (simp only: buffer_estimate_30 round_30)
  next
    case 2 then show ?thesis by (simp only: buffer_estimate_40 round_40)
  next
    case 3 then show ?thesis by (simp only: buffer_estimate_45 round_45)
  next
    case 4 then show ?thesis by (simp only: buffer_estimate_60 round_60)
  next
    case 5 then show ?thesis by (simp only: buffer_estimate_75 round_75)
  next
    case 6 then show ?thesis by (simp only: buffer_estimate_90 round_90)
  next
    case 7 then show ?thesis by (simp only: buffer_estimate_120 round_120)
  qed
qed

lemma enumerate_times:
  "map estimated_time
     (map (\<lambda>(i, (title, description, time_est, deps)).
            \<lparr>id_st = str_nat i, parent_task_id = tid, title_st = title,
             description_st = description, order_st = int i, status_st = PENDING,
             estimated_time = time_est, dependencies = deps\<rparr>)
          (List.enumerate n table))
   = map (\<lambda>(title, description, t, deps). t) table"
  by (induction table arbitrary: n) (simp_all add: split_def)

lemma make_subtasks_times:
  "map estimated_time (make_subtasks task table) = map (\<lambda>(title, description, t, deps). t) table"
  unfolding make_subtasks_def by (rule enumerate_times)

lemma make_subtasks_time_mem:
  assumes "s \<in> set (make_subtasks task table)"
  shows "estimated_time s \<in> (\<lambda>(title, description, t, deps). t) ` set table"
proof -
  have "estimated_time s \<in> set (map estimated_time (make_subtasks task table))"
    using assms by simp
  then show ?thesis
    by (simp only: make_subtasks_times set_map)
qed

lemma table_times:
  assumes "table \<in> {base_subtasks, parallel_subtasks, hybrid_subtasks}"
  shows "(\<lambda>(title, description, t, deps). t) ` set table \<subseteq> {30, 40, 45, 60, 75, 90, 120}"
  using assms
  by (auto simp: base_subtasks_def parallel_subtasks_def hybrid_subtasks_def)

lemma buffer_all_map:
  assumes "\<And>s. s \<in> set sts \<Longrightarrow> buffer_estimate (estimated_time s) = Inr (f (estimated_time s))"
  shows "buffer_all sts = Inr (map (\<lambda>s. s\<lparr>estimated_time := f (estimated_time s)\<rparr>) sts)"
  using assms by (induction sts) simp_all

lemma replan_result:
  assumes "decompose_task task (replan_strategy e issues) = Inr sts"
    and "buffer_all sts = Inr sts'"
  shows "\<exists>plan a' w'. replan e a task issues w = (Inr plan, a', w') \<and> subtasks plan = sts'"
proof -
  let ?a = "log_activity a (Replanning (title_t task) issues)"
  obtain c w1 where 1: "datetime_now e w = (c, w1)" by (cases "datetime_now e w")
  obtain u w2 where 2: "uuid4 e w1 = (u, w2)" by (cases "uuid4 e w1")
  have "fst (replan e a task issues w) =
      Inr \<lparr>id_p = u, task_id_p = id_t task, subtasks = sts',
           estimated_total_time = sum_list (map estimated_time sts'), created_at_p = c,
           agent_id = id_a ?a\<rparr>"
    using assms 1 2 by (simp add: replan_def Plan_post_init_def Let_def)
  then show ?thesis
    by (metis Plan.select_convs(3) prod.collapse)
qed

lemma replan_returns:
  "\<exists>plan a' w' sts. replan e a task issues w = (Inr plan, a', w')
     \<and> decompose_task task (replan_strategy e issues) = Inr sts
     \<and> buffer_all sts = Inr (subtasks plan)
     \<and> subtasks plan =
         map (\<lambda>s. s\<lparr>estimated_time := round (real_of_int (estimated_time s) * 1.2)\<rparr>) sts"
proof -
  obtain table where table: "table \<in> {base_subtasks, parallel_subtasks, hybrid_subtasks}"
    and dec: "decompose_task task (replan_strategy e issues) = Inr (make_subtasks task table)"
    using decompose_task_known [OF replan_strategy_range] by blast
  let ?buffered =
    "map (\<lambda>s. s\<lparr>estimated_time := round (real_of_int (estimated_time s) * 1.2)\<rparr>)
       (make_subtasks task table)"
  have "buffer_estimate (estimated_time s) = Inr (round (real_of_int (estimated_time s) * 1.2))"
    if "s \<in> set (make_subtasks task table)" for s
    using make_subtasks_time_mem [OF that] table_times [OF table]
    by (intro buffer_estimate_rounds) blast
  then have buf: "buffer_all (make_subtasks task table) = Inr ?buffered"
    by (rule buffer_all_map)
  from replan_result [OF dec buf] obtain plan a' w'
    where run: "replan e a task issues w = (Inr plan, a', w')"
      and sts: "subtasks plan = ?buffered"
    by blast
  from buf sts have "buffer_all (make_subtasks task table) = Inr (subtasks plan)"
    by (simp only:)
  with run sts dec show ?thesis by blast
qed

text \<open>
  C5. For every work item, \<open>_analyze_complexity\<close> returns the class that the
  specification's rule gives: the sum of five indicators (more than 5 requirements; more
  than 100 words in the description; priority HIGH or CRITICAL; the description mentions
  the integration keyword; the description mentions the API keyword), with a sum of at
  least 3 high, at least 1 medium, and low otherwise. The strategy chosen from it is
  hybrid exactly when the class is high or the priority is CRITICAL, parallel exactly
  when the class is medium and the priority is not CRITICAL, and sequential in every
  other case; and \<open>process\<close> returns a plan whose subtasks are the ones that strategy
  builds.
\<close>

theorem decompose_complexity_and_strategy:
  "analyze_complexity e task = complexity_class_spec e task
   \<and> (choose_strategy (analyze_complexity e task) (priority task) = ''hybrid''
        \<longleftrightarrow> complexity_class_spec e task = ''high'' \<or> priority task = CRITICAL)
   \<and> (choose_strategy (analyze_complexity e task) (priority task) = ''parallel''
        \<longleftrightarrow> complexity_class_spec e task = ''medium'' \<and> priority task \<noteq> CRITICAL)
   \<and> (choose_strategy (analyze_complexity e task) (priority task) = ''sequential''
        \<longleftrightarrow> complexity_class_spec e task = ''low'' \<and> priority task \<noteq> CRITICAL)
   \<and> (\<exists>plan a' w'. planner_process e a task w = (Inr plan, a', w')
        \<and> decompose_task task (choose_strategy (analyze_complexity e task) (priority task))
            = Inr (subtasks plan))"
proof -
  have cls: "complexity_class_spec e task \<in> {''high'', ''medium'', ''low''}"
    by (simp add: complexity_class_spec_def)
  have "choose_strategy (complexity_class_spec e task) (priority task) = ''hybrid''
        \<longleftrightarrow> complexity_class_spec e task = ''high'' \<or> priority task = CRITICAL"
    by (simp add: choose_strategy_def)
  moreover have "choose_strategy (complexity_class_spec e task) (priority task) = ''parallel''
        \<longleftrightarrow> complexity_class_spec e task = ''medium'' \<and> priority task \<noteq> CRITICAL"
    by (auto simp: choose_strategy_def)
  moreover have "choose_strategy (complexity_class_spec e task) (priority task) = ''sequential''
        \<longleftrightarrow> complexity_class_spec e task = ''low'' \<and> priority task \<noteq> CRITICAL"
    using cls by (auto simp: choose_strategy_def)
  ultimately show ?thesis
    using planner_process_returns [of e a task w]
    by (simp only: analyze_complexity_refines simp_thms)
qed

text \<open>
  C6. Two calls of \<open>replan\<close> with the same item and the same issues, whatever the
  clocks, the UUID generator and the agent's state are at each call, both return a plan;
  both plans are built by the same strategy, the one the issues select, and their
  subtask lists are equal, hence agree pointwise in title, order, dependencies and
  buffered estimated time.
\<close>

theorem replan_idempotent:
  "\<exists>p1 a1' w1' p2 a2' w2' sts.
     replan e a1 task issues w1 = (Inr p1, a1', w1')
   \<and> replan e a2 task issues w2 = (Inr p2, a2', w2')
   \<and> decompose_task task (replan_strategy e issues) = Inr sts
   \<and> buffer_all sts = Inr (subtasks p1)
   \<and> buffer_all sts = Inr (subtasks p2)
   \<and> subtasks p1 = subtasks p2"
proof -
  obtain p1 a1' w1' sts1 where 1: "replan e a1 task issues w1 = (Inr p1, a1', w1')"
    "decompose_task task (replan_strategy e issues) = Inr sts1"
    "buffer_all sts1 = Inr (subtasks p1)"
    using replan_returns [of e a1 task issues w1] by blast
  obtain p2 a2' w2' sts2 where 2: "replan e a2 task issues w2 = (Inr p2, a2', w2')"
    "decompose_task task (replan_strategy e issues) = Inr sts2"
    "buffer_all sts2 = Inr (subtasks p2)"
    using replan_returns [of e a2 task issues w2] by blast
  from 1(2) 2(2) have same: "sts2 = sts1" by simp
  with 1(3) 2(3) have "subtasks p1 = subtasks p2" by simp
  with 1 2 same show ?thesis by blast
qed

text \<open>
  C7. \<open>replan\<close> always returns a plan, and the estimated time of each of its subtasks is
  \<open>round(t * 1.2)\<close>, where \<open>t\<close> is the estimate of the same subtask in the list that
  the chosen strategy builds.
\<close>

theorem replan_time_buffer:
  "\<exists>plan a' w' sts. replan e a task issues w = (Inr plan, a', w')
     \<and> decompose_task task (replan_strategy e issues) = Inr sts
     \<and> map estimated_time (subtasks plan)
         = map (\<lambda>s. round (real_of_int (estimated_time s) * 1.2)) sts"
proof -
  obtain plan a' w' sts where run: "replan e a task issues w = (Inr plan, a', w')"
    and dec: "decompose_task task (replan_strategy e issues) = Inr sts"
    and sts: "subtasks plan =
         map (\<lambda>s. s\<lparr>estimated_time := round (real_of_int (estimated_time s) * 1.2)\<rparr>) sts"
    using replan_returns [of e a task issues w] by blast
  have "map estimated_time (subtasks plan)
        = map (\<lambda>s. round (real_of_int (estimated_time s) * 1.2)) sts"
    unfolding sts by (simp add: comp_def)
  with run dec show ?thesis by blast
qed

section \<open>Executor theorems\<close>

lemma dependency_path_successor:
  assumes "dependency_path sts p" and "x \<in> set (butlast p)"
  shows "\<exists>y \<in> set (tl p). depends_on sts x y"
  using assms
proof (induction sts p rule: dependency_path.induct)
  case (3 sts a b rest)
  show ?case
  proof (cases "x = a")
    case True
    with 3 show ?thesis by auto
  next
    case False
    with 3 have "x \<in> set (butlast (b # rest))" by auto
    with 3 obtain y where "y \<in> set (tl (b # rest))" "depends_on sts x y" by auto
    then show ?thesis by auto
  qed
qed simp_all

lemma cycle_successor:
  assumes "dependency_cycle sts cyc" and "x \<in> set cyc"
  shows "\<exists>y \<in> set cyc. depends_on sts x y"
proof -
  from assms(1) have ne: "cyc \<noteq> []" and path: "dependency_path sts (cyc @ [hd cyc])"
    by (simp_all add: dependency_cycle_def)
  have "x \<in> set (butlast (cyc @ [hd cyc]))"
    using assms(2) by (simp add: butlast_append)
  from dependency_path_successor [OF path this]
  obtain y where y: "y \<in> set (tl (cyc @ [hd cyc]))" and dep: "depends_on sts x y"
    by blast
  from ne have "set (tl (cyc @ [hd cyc])) \<subseteq> set cyc"
    by (cases cyc) auto
  with y dep show ?thesis by blast
qed

lemma cycle_ids:
  assumes "dependency_cycle sts cyc"
  shows "set cyc \<subseteq> id_st ` set sts"
proof
  fix x assume "x \<in> set cyc"
  from cycle_successor [OF assms this] show "x \<in> id_st ` set sts"
    by (auto simp: depends_on_def)
qed

text \<open>One dispatch, when no work function fails.\<close>

lemma determine_strategy_status [simp]:
  "determine_strategy e (subtask\<lparr>status_st := st\<rparr>) = determine_strategy e subtask"
  by (simp add: determine_strategy_def)

lemma execute_subtask_succeeds:
  assumes "never_fails e reg"
  shows "\<exists>r a' w'. execute_subtask e reg a subtask w
             = (r, subtask\<lparr>status_st := IN_PROGRESS\<rparr>, a', w')
           \<and> success r \<and> subtask_id r = Some (id_st subtask)
           \<and> set (activity_log a) \<subseteq> set (activity_log a')"
proof -
  let ?st = "subtask\<lparr>status_st := IN_PROGRESS\<rparr>"
  obtain t0 w1 where 1: "time_time e w = (t0, w1)" by (cases "time_time e w")
  from assms obtain work where reg: "reg (determine_strategy e subtask) = Some work"
    and total: "\<forall>st w. \<exists>out w'. work st w = (Inr out, w')"
    unfolding never_fails_def by blast
  from total obtain out w2 where 2: "work ?st w1 = (Inr out, w2)" by blast
  obtain t1 w3 where 3: "time_time e w2 = (t1, w3)" by (cases "time_time e w2")
  obtain stamp w4 where 4: "datetime_now e w3 = (stamp, w4)" by (cases "datetime_now e w3")
  obtain u w5 where 5: "uuid4 e w4 = (u, w5)" by (cases "uuid4 e w4")
  show ?thesis
    using 1 reg 2 3 4 5
    by (auto simp: execute_subtask_def ExecutionResult_post_init_def Let_def log_activity_def
        agent_update_performance_def)
qed

lemma map_update_same:
  assumes "i < length xs" and "f y = f (xs ! i)"
  shows "map f (xs[i := y]) = map f xs"
  using assms by (simp add: map_update list_update_same_conv)

lemma run_subtask_succeeds:
  assumes "never_fails e reg" and "i < length (plan_subtasks s)"
  shows "\<exists>r. results (run_subtask e reg i s) = results s @ [r]
           \<and> subtask_id r = Some (id_st (plan_subtasks s ! i))
           \<and> executed_subtasks (run_subtask e reg i s)
               = insert (id_st (plan_subtasks s ! i)) (executed_subtasks s)
           \<and> shape (plan_subtasks (run_subtask e reg i s)) = shape (plan_subtasks s)
           \<and> set (activity_log (executor s))
               \<subseteq> set (activity_log (executor (run_subtask e reg i s)))"
proof -
  let ?st = "plan_subtasks s ! i"
  from execute_subtask_succeeds [OF assms(1), of "executor s" ?st "world s"]
  obtain r a' w' where ex: "execute_subtask e reg (executor s) ?st (world s)
        = (r, ?st\<lparr>status_st := IN_PROGRESS\<rparr>, a', w')"
    and ok: "success r" and sid: "subtask_id r = Some (id_st ?st)"
    and log: "set (activity_log (executor s)) \<subseteq> set (activity_log a')"
    by blast
  have "shape ((plan_subtasks s)[i := ?st\<lparr>status_st := COMPLETED\<rparr>]) = shape (plan_subtasks s)"
    unfolding shape_def using assms(2) by (intro map_update_same) simp_all
  then show ?thesis
    using ex ok sid log by (simp add: run_subtask_def Let_def)
qed

lemma shape_length: "shape a = shape b \<Longrightarrow> length a = length b"
  unfolding shape_def by (rule map_eq_imp_length_eq)

lemma shape_nth:
  assumes "shape a = shape b" and "j < length b"
  shows "id_st (a ! j) = id_st (b ! j)" and "dependencies (a ! j) = dependencies (b ! j)"
proof -
  have len: "j < length a" using assms shape_length by metis
  have "shape a ! j = shape b ! j" using assms(1) by simp
  then have "(id_st (a ! j), dependencies (a ! j)) = (id_st (b ! j), dependencies (b ! j))"
    using len assms(2) by (simp add: shape_def)
  then show "id_st (a ! j) = id_st (b ! j)" and "dependencies (a ! j) = dependencies (b ! j)"
    by simp_all
qed

text \<open>One round: every ready subtask is dispatched once, in order.\<close>

lemma fold_run_subtask:
  assumes "never_fails e reg" and "\<forall>i \<in> set ready. i < length (plan_subtasks s)"
  shows "shape (plan_subtasks (fold (run_subtask e reg) ready s)) = shape (plan_subtasks s)
       \<and> executed_subtasks (fold (run_subtask e reg) ready s)
           = executed_subtasks s \<union> (\<lambda>i. id_st (plan_subtasks s ! i)) ` set ready
       \<and> length (results (fold (run_subtask e reg) ready s))
           = length (results s) + length ready
       \<and> subtask_id ` set (results (fold (run_subtask e reg) ready s))
           = subtask_id ` set (results s)
             \<union> (\<lambda>i. Some (id_st (plan_subtasks s ! i))) ` set ready
       \<and> set (activity_log (executor s))
           \<subseteq> set (activity_log (executor (fold (run_subtask e reg) ready s)))"
  using assms(2)
proof (induction ready arbitrary: s)
  case Nil
  then show ?case by simp
next
  case (Cons i rest)
  let ?s1 = "run_subtask e reg i s"
  let ?s2 = "fold (run_subtask e reg) rest ?s1"
  from Cons.prems have i: "i < length (plan_subtasks s)" by simp
  from run_subtask_succeeds [OF assms(1) i] obtain r where
    res: "results ?s1 = results s @ [r]"
    and sid: "subtask_id r = Some (id_st (plan_subtasks s ! i))"
    and ex: "executed_subtasks ?s1 = insert (id_st (plan_subtasks s ! i)) (executed_subtasks s)"
    and sh: "shape (plan_subtasks ?s1) = shape (plan_subtasks s)"
    and log: "set (activity_log (executor s)) \<subseteq> set (activity_log (executor ?s1))"
    by blast
  have rest: "\<forall>j \<in> set rest. j < length (plan_subtasks ?s1)"
    using Cons.prems shape_length [OF sh] by simp
  have ids: "id_st (plan_subtasks ?s1 ! j) = id_st (plan_subtasks s ! j)" if "j \<in> set rest" for j
    using shape_nth(1) [OF sh] Cons.prems that by simp
  from Cons.IH [OF rest] have
    1: "shape (plan_subtasks ?s2) = shape (plan_subtasks ?s1)"
    and 2: "executed_subtasks ?s2
          = executed_subtasks ?s1 \<union> (\<lambda>i. id_st (plan_subtasks ?s1 ! i)) ` set rest"
    and 3: "length (results ?s2) = length (results ?s1) + length rest"
    and 4: "subtask_id ` set (results ?s2)
          = subtask_id ` set (results ?s1)
            \<union> (\<lambda>i. Some (id_st (plan_subtasks ?s1 ! i))) ` set rest"
    and 5: "set (activity_log (executor ?s1)) \<subseteq> set (activity_log (executor ?s2))"
    by simp_all
  have img: "(\<lambda>i. id_st (plan_subtasks ?s1 ! i)) ` set rest
           = (\<lambda>i. id_st (plan_subtasks s ! i)) ` set rest"
    using ids by (intro image_cong) simp_all
  have img': "(\<lambda>i. Some (id_st (plan_subtasks ?s1 ! i))) ` set rest
           = (\<lambda>i. Some (id_st (plan_subtasks s ! i))) ` set rest"
    using ids by (intro image_cong) simp_all
  have a: "shape (plan_subtasks ?s2) = shape (plan_subtasks s)"
    using 1 sh by simp
  have b: "executed_subtasks ?s2
         = executed_subtasks s \<union> (\<lambda>i. id_st (plan_subtasks s ! i)) ` set (i # rest)"
    unfolding 2 img ex by auto
  have c: "length (results ?s2) = length (results s) + length (i # rest)"
    unfolding 3 res by simp
  have d: "subtask_id ` set (results ?s2)
         = subtask_id ` set (results s)
           \<union> (\<lambda>i. Some (id_st (plan_subtasks s ! i))) ` set (i # rest)"
    unfolding 4 img' res using sid by auto
  have f: "set (activity_log (executor s)) \<subseteq> set (activity_log (executor ?s2))"
    using log 5 by blast
  show ?case
    using a b c d f by (simp only: fold_simps)
qed

lemma ready_subtasks_facts:
  assumes "i \<in> set (get_ready_subtasks sts executed)"
  shows "i < length sts" and "id_st (sts ! i) \<notin> executed"
    and "set (dependencies (sts ! i)) \<subseteq> executed"
  using assms by (auto simp: get_ready_subtasks_def)

lemma ready_subtasks_distinct: "distinct (get_ready_subtasks sts executed)"
  by (simp add: get_ready_subtasks_def)

lemma finite_uncovered [simp]: "finite (uncovered sts executed)"
  by (simp add: uncovered_def)

text \<open>
  An identifier on the cycle belongs to a subtask that is not ready while no identifier
  of the cycle is executed.
\<close>

lemma cycle_member_position:
  assumes cyc: "dependency_cycle sts0 cyc"
    and sh: "shape sts = shape sts0"
    and disj: "executed \<inter> set cyc = {}"
    and x: "x \<in> set cyc"
  shows "\<exists>c < length sts0. id_st (sts0 ! c) = x \<and> c \<notin> set (get_ready_subtasks sts executed)"
proof -
  from cycle_successor [OF cyc x] obtain y where y: "y \<in> set cyc"
    and dep: "depends_on sts0 x y"
    by blast
  then obtain s where s: "s \<in> set sts0" "id_st s = x" "y \<in> set (dependencies s)"
    by (auto simp: depends_on_def)
  then obtain c where c: "c < length sts0" "sts0 ! c = s"
    by (auto simp: in_set_conv_nth)
  have "dependencies (sts ! c) = dependencies (sts0 ! c)"
    by (rule shape_nth(2) [OF sh c(1)])
  with c s(3) have "y \<in> set (dependencies (sts ! c))" by simp
  moreover from y disj have "y \<notin> executed" by blast
  ultimately have "c \<notin> set (get_ready_subtasks sts executed)"
    using ready_subtasks_facts(3) by blast
  with c s(2) show ?thesis by blast
qed

lemma round_preserves_invariant:
  assumes nf: "never_fails e reg"
    and cyc: "dependency_cycle sts0 cyc"
    and inv: "cycle_invariant sts0 (set cyc) s"
  defines "ready \<equiv> get_ready_subtasks (plan_subtasks s) (executed_subtasks s)"
  defines "s' \<equiv> fold (run_subtask e reg) ready s"
  shows "cycle_invariant sts0 (set cyc) s'"
    and "ready \<noteq> [] \<Longrightarrow> card (executed_subtasks s) < card (executed_subtasks s')"
    and "set (activity_log (executor s)) \<subseteq> set (activity_log (executor s'))"
proof -
  let ?sts = "plan_subtasks s"
  let ?E = "executed_subtasks s"
  let ?E' = "executed_subtasks s'"
  let ?ids = "\<lambda>i. id_st (?sts ! i)"
  let ?n = "length sts0"
  from inv have sh: "shape ?sts = shape sts0" and fin: "finite ?E"
    and few: "card ?E \<le> length (results s)"
    and total: "length (results s) + card (uncovered sts0 ?E) \<le> ?n"
    and strict: "?E \<inter> set cyc = {} \<or> length (results s) + card (uncovered sts0 ?E) < ?n"
    by (simp_all add: cycle_invariant_def)
  have len: "length ?sts = ?n" by (rule shape_length [OF sh])
  have bound: "\<forall>i \<in> set ready. i < length ?sts"
    unfolding ready_def using ready_subtasks_facts(1) by blast
  have fresh: "?ids i \<notin> ?E" if "i \<in> set ready" for i
    using that ready_subtasks_facts(2) unfolding ready_def by blast
  have same_id: "?ids i = id_st (sts0 ! i)" if "i < ?n" for i
    by (rule shape_nth(1) [OF sh that])
  from fold_run_subtask [OF nf bound] have
    1: "shape (plan_subtasks s') = shape ?sts"
    and 2: "?E' = ?E \<union> ?ids ` set ready"
    and 3: "length (results s') = length (results s) + length ready"
    and 5: "set (activity_log (executor s)) \<subseteq> set (activity_log (executor s'))"
    unfolding s'_def by simp_all
  have fin': "finite ?E'"
    unfolding 2 using fin by simp
  have "card ?E' \<le> card ?E + card (?ids ` set ready)"
    unfolding 2 by (rule card_Un_le)
  also have "card (?ids ` set ready) \<le> card (set ready)"
    by (rule card_image_le) simp
  also have "card (set ready) \<le> length ready"
    by (rule card_length)
  finally have few': "card ?E' \<le> length (results s')"
    using few 3 by simp
  have covered: "set ready \<subseteq> uncovered sts0 ?E - uncovered sts0 ?E'"
  proof
    fix i assume i: "i \<in> set ready"
    with bound len have "i < ?n" by auto
    moreover from fresh [OF i] same_id [OF \<open>i < ?n\<close>] have "id_st (sts0 ! i) \<notin> ?E" by simp
    moreover from i same_id [OF \<open>i < ?n\<close>] have "id_st (sts0 ! i) \<in> ?E'"
      unfolding 2 by force
    ultimately show "i \<in> uncovered sts0 ?E - uncovered sts0 ?E'"
      by (simp add: uncovered_def)
  qed
  have shrink: "uncovered sts0 ?E' \<subseteq> uncovered sts0 ?E"
    unfolding 2 by (auto simp: uncovered_def)
  have count: "card (uncovered sts0 ?E') + length ready \<le> card (uncovered sts0 ?E)"
  proof -
    have "card (uncovered sts0 ?E' \<union> set ready) \<le> card (uncovered sts0 ?E)"
      using shrink covered by (intro card_mono) auto
    moreover have "card (uncovered sts0 ?E' \<union> set ready)
        = card (uncovered sts0 ?E') + card (set ready)"
      using covered by (intro card_Un_disjoint) auto
    moreover have "card (set ready) = length ready"
      using ready_subtasks_distinct [of ?sts ?E] unfolding ready_def by (rule distinct_card)
    ultimately show ?thesis by simp
  qed
  have total': "length (results s') + card (uncovered sts0 ?E') \<le> ?n"
    using 3 count total by simp
  have strict': "?E' \<inter> set cyc = {}
      \<or> length (results s') + card (uncovered sts0 ?E') < ?n"
  proof (cases "?E' \<inter> set cyc = {}")
    case True
    then show ?thesis by simp
  next
    case False
    show ?thesis
    proof (cases "?E \<inter> set cyc = {}")
      case disj: True
      from False obtain x where x: "x \<in> set cyc" "x \<in> ?E'" by blast
      with disj have new: "x \<notin> ?E" by blast
      from cycle_member_position [OF cyc sh disj x(1)] obtain c where
        c: "c < ?n" "id_st (sts0 ! c) = x" "c \<notin> set ready"
        unfolding ready_def by blast
      have c_in: "c \<in> uncovered sts0 ?E - uncovered sts0 ?E'"
        using c x(2) new by (simp add: uncovered_def)
      have "card (uncovered sts0 ?E' \<union> insert c (set ready)) \<le> card (uncovered sts0 ?E)"
        using shrink covered c_in by (intro card_mono) auto
      moreover have "card (uncovered sts0 ?E' \<union> insert c (set ready))
          = card (uncovered sts0 ?E') + card (insert c (set ready))"
        using covered c_in by (intro card_Un_disjoint) auto
      moreover have "card (insert c (set ready)) = Suc (length ready)"
        using c(3) ready_subtasks_distinct [of ?sts ?E] unfolding ready_def
        by (simp add: distinct_card)
      ultimately have "card (uncovered sts0 ?E') + Suc (length ready)
          \<le> card (uncovered sts0 ?E)"
        by simp
      with 3 total show ?thesis by simp
    next
      case False
      with strict have "length (results s) + card (uncovered sts0 ?E) < ?n" by simp
      with 3 count show ?thesis by simp
    qed
  qed
  show "cycle_invariant sts0 (set cyc) s'"
    using 1 sh fin' few' total' strict' by (simp add: cycle_invariant_def)
  show "card ?E < card ?E'" if "ready \<noteq> []"
  proof -
    from that obtain i where i: "i \<in> set ready" by (cases ready) auto
    then have "?ids i \<in> ?E'" unfolding 2 by blast
    with fresh [OF i] have "?E \<subset> ?E'" unfolding 2 by blast
    with fin' show ?thesis by (rule psubset_card_mono)
  qed
  show "set (activity_log (executor s)) \<subseteq> set (activity_log (executor s'))" by (rule 5)
qed

lemma cycle_invariant_bound:
  assumes cyc: "dependency_cycle sts0 cyc" and inv: "cycle_invariant sts0 (set cyc) s"
  shows "length (results s) < length sts0" and "card (executed_subtasks s) < length sts0"
proof -
  let ?E = "executed_subtasks s"
  from inv have few: "card ?E \<le> length (results s)"
    and total: "length (results s) + card (uncovered sts0 ?E) \<le> length sts0"
    and strict: "?E \<inter> set cyc = {}
        \<or> length (results s) + card (uncovered sts0 ?E) < length sts0"
    by (simp_all add: cycle_invariant_def)
  show short: "length (results s) < length sts0"
  proof (cases "?E \<inter> set cyc = {}")
    case True
    from cyc have "cyc \<noteq> []" by (simp add: dependency_cycle_def)
    then obtain x where x: "x \<in> set cyc" by (cases cyc) auto
    with cycle_ids [OF cyc] have "x \<in> id_st ` set sts0" by blast
    then obtain s0 where "s0 \<in> set sts0" "id_st s0 = x" by blast
    then obtain c where "c < length sts0" "id_st (sts0 ! c) = x"
      by (auto simp: in_set_conv_nth)
    with x True have "c \<in> uncovered sts0 ?E"
      by (auto simp: uncovered_def)
    then have "0 < card (uncovered sts0 ?E)"
      by (auto simp: card_gt_0_iff)
    with total show ?thesis by simp
  next
    case False
    with strict show ?thesis by simp
  qed
  with few show "card ?E < length sts0" by simp
qed

text \<open>The loop ends within \<open>length sts0\<close> tests of its condition, through the \<open>break\<close>.\<close>

lemma execution_rounds_cycle:
  assumes nf: "never_fails e reg"
    and cyc: "dependency_cycle sts0 cyc"
  shows "cycle_invariant sts0 (set cyc) s
    \<Longrightarrow> length sts0 \<le> fuel + card (executed_subtasks s)
    \<Longrightarrow> \<exists>s'. execution_rounds e reg fuel s = Some s'
          \<and> cycle_invariant sts0 (set cyc) s'
          \<and> CircularDependency \<in> set (activity_log (executor s'))"
proof (induction fuel arbitrary: s)
  case 0
  from cycle_invariant_bound(2) [OF cyc "0.prems"(1)] "0.prems"(2) have False
    by linarith
  then show ?case ..
next
  case (Suc fuel)
  let ?ready = "get_ready_subtasks (plan_subtasks s) (executed_subtasks s)"
  from Suc.prems(1) have "shape (plan_subtasks s) = shape sts0"
    by (simp add: cycle_invariant_def)
  then have "length (plan_subtasks s) = length sts0"
    by (rule shape_length)
  with cycle_invariant_bound(2) [OF cyc Suc.prems(1)]
  have cond: "card (executed_subtasks s) < length (plan_subtasks s)" by simp
  show ?case
  proof (cases "?ready = []")
    case True
    let ?s' = "s\<lparr>executor := log_activity (executor s) CircularDependency\<rparr>"
    have "execution_rounds e reg (Suc fuel) s = Some ?s'"
      using cond True by (simp add: Let_def)
    moreover have "cycle_invariant sts0 (set cyc) ?s'"
      using Suc.prems(1) by (simp add: cycle_invariant_def)
    moreover have "CircularDependency \<in> set (activity_log (executor ?s'))"
      by (simp add: log_activity_def)
    ultimately show ?thesis by blast
  next
    case False
    let ?s2 = "fold (run_subtask e reg) ?ready s"
    from round_preserves_invariant [OF nf cyc Suc.prems(1)] False
    have inv2: "cycle_invariant sts0 (set cyc) ?s2"
      and card2: "card (executed_subtasks s) < card (executed_subtasks ?s2)"
      by simp_all
    with Suc.prems(2) have "length sts0 \<le> fuel + card (executed_subtasks ?s2)"
      by linarith
    from Suc.IH [OF inv2 this] obtain s' where
      "execution_rounds e reg fuel ?s2 = Some s'"
      "cycle_invariant sts0 (set cyc) s'"
      "CircularDependency \<in> set (activity_log (executor s'))"
      by blast
    moreover have "execution_rounds e reg (Suc fuel) s = execution_rounds e reg fuel ?s2"
      using cond False by (simp add: Let_def)
    ultimately show ?thesis by simp
  qed
qed

text \<open>
  C2, as amended. For every plan whose dependency relation contains a cycle, and a
  registry whose work functions never fail, \<open>process\<close> halts within as many rounds as
  the plan has subtasks, logs the circular-dependency diagnostic, and returns a result
  list, possibly empty, that is strictly shorter than the number of subtasks: at least
  one subtask is not dispatched.
\<close>

theorem cyclic_plan_halts_partial:
  assumes "dependency_cycle (subtasks plan) cyc"
    and "never_fails e reg"
    and "length (subtasks plan) \<le> fuel"
  shows "\<exists>rs s. executor_process e reg fuel a plan w = Some (rs, s)
           \<and> CircularDependency \<in> set (activity_log (executor s))
           \<and> length rs < length (subtasks plan)"
proof -
  let ?s0 = "\<lparr>results = [], executed_subtasks = {}, plan_subtasks = subtasks plan,
              executor = log_activity a (ExecutionStarted (id_p plan)), world = w\<rparr>"
  have "card (uncovered (subtasks plan) {}) \<le> length (subtasks plan)"
    using card_mono [of "{..<length (subtasks plan)}" "uncovered (subtasks plan) {}"]
    by (auto simp: uncovered_def)
  then have inv0: "cycle_invariant (subtasks plan) (set cyc) ?s0"
    by (simp add: cycle_invariant_def)
  have "length (subtasks plan) \<le> fuel + card (executed_subtasks ?s0)"
    using assms(3) by simp
  from execution_rounds_cycle [OF assms(2) assms(1) inv0 this]
  obtain s' where run: "execution_rounds e reg fuel ?s0 = Some s'"
    and inv: "cycle_invariant (subtasks plan) (set cyc) s'"
    and log: "CircularDependency \<in> set (activity_log (executor s'))"
    by blast
  let ?final = "s'\<lparr>executor := log_activity (executor s')
      (ExecutionDone (length (subtasks plan)) (length (filter success (results s')))
         (length (filter (\<lambda>r. \<not> success r) (results s'))))\<rparr>"
  have ret: "executor_process e reg fuel a plan w = Some (results s', ?final)"
    using run by (simp add: executor_process_def Let_def)
  have logged: "CircularDependency \<in> set (activity_log (executor ?final))"
    using log by (simp add: log_activity_def)
  have shorter: "length (results s') < length (subtasks plan)"
    by (rule cycle_invariant_bound(1) [OF assms(1) inv])
  from ret logged shorter show ?thesis by blast
qed

theorem cyclic_plan_halts_partial_witness:
  "dependency_cycle (subtasks blocked_plan) [ascii ''2'', ascii ''3'']
   \<and> never_fails demo_env reliable_registry
   \<and> length (subtasks blocked_plan) \<le> 3
   \<and> (\<exists>rs s. executor_process demo_env reliable_registry 3 demo_agent blocked_plan 0
               = Some (rs, s)
         \<and> CircularDependency \<in> set (activity_log (executor s))
         \<and> length rs < length (subtasks blocked_plan))"
proof -
  have 1: "dependency_cycle (subtasks blocked_plan) [ascii ''2'', ascii ''3'']"
    by (simp add: blocked_plan_def demo_plan_def demo_subtask_def ascii_def
        dependency_cycle_def depends_on_def)
  have 2: "never_fails demo_env reliable_registry"
    by (simp add: never_fails_def reliable_registry_def)
  have 3: "length (subtasks blocked_plan) \<le> 3"
    by (simp add: blocked_plan_def demo_plan_def)
  from cyclic_plan_halts_partial [OF 1 2 3, of demo_agent 0] 1 2 3
  show ?thesis by blast
qed

text \<open>
  The claim C2 as stated asks for a non-empty result list. When every subtask lies on
  the cycle, nothing is ever ready: the first round logs the diagnostic and \<open>process\<close>
  returns the empty list.
\<close>

theorem cyclic_plan_empty_results:
  "dependency_cycle (subtasks two_cycle_plan) [ascii ''1'', ascii ''2'']
   \<and> map_option fst (executor_process demo_env reliable_registry 1 demo_agent two_cycle_plan 0)
       = Some []"
  by code_simp

text \<open>
  C1. The claim: one call of \<open>process\<close> yields at most one result per subtask, a failed
  subtask is not dispatched again, and the dependents of a failed subtask are not
  dispatched. The ready set only excludes executed and \<open>COMPLETED\<close> subtasks, so a
  \<open>FAILED\<close> one is ready again in the next round. With subtask 2 depending on subtask 1
  and a work function that raises on its first call only, \<open>process\<close> returns three
  results: subtask 1 failed, subtask 1 succeeded, subtask 2 succeeded.
\<close>

theorem failed_subtask_is_retried:
  "map_option (\<lambda>(rs, s). map (\<lambda>r. (subtask_id r, success r)) rs)
     (executor_process demo_env flaky_registry 4 demo_agent two_step_plan 0)
   = Some [(Some (ascii ''1''), False), (Some (ascii ''1''), True), (Some (ascii ''2''), True)]"
  by code_simp

section \<open>Verifier theorems\<close>

text \<open>
  C3. The claim: for every list of execution results the quality and accuracy scores of
  the verification result lie between 0 and 1. \<open>_verify_testing\<close> takes the accuracy
  score to be \<open>tests_passed / tests_executed\<close> without a bound. For the single
  successful testing result with 15 tests executed, 48 passed and 90 percent coverage,
  \<open>process\<close> returns a verification result with accuracy score 48/15 = 3.2.
\<close>

theorem accuracy_score_exceeds_one:
  "(case fst (verifier_process demo_env demo_agent [testing_result] demo_task 0) of
      Inr vr \<Rightarrow> accuracy_score vr = 16 / 5 \<and> quality_score vr = 1
    | Inl err \<Rightarrow> False)"
  by code_simp

section \<open>Orchestrator theorems\<close>

lemma demo_clock: "time_time demo_env w = (0, w)"
  by (simp add: demo_env_def)

lemma planner_process_no_replanning:
  "filter is_replanning (activity_log (fst (snd (planner_process e a task w))))
   = filter is_replanning (activity_log a)"
  by (simp add: planner_process_def Let_def split_def log_activity_def
      agent_update_performance_def split: sum.splits)

lemma run_phases_first_planner:
  assumes "run_phases e reg fuel sys task previous 0 w = Some (r, sys', w')"
  shows "filter is_replanning (activity_log (planner sys'))
         = filter is_replanning (activity_log (planner sys))"
proof -
  have "planner sys' = fst (snd (planner_process e (planner sys) task w))"
    using assms
    by (auto simp: run_phases_def Let_def split_def split: sum.splits option.splits)
  then show ?thesis
    by (simp only: planner_process_no_replanning)
qed

text \<open>
  C9. With \<open>max_replanning_attempts = 0\<close>, if the first pass through planning,
  execution and verification returns a verification result that did not pass, then
  \<open>process_task\<close> returns the failure summary: its status is \<open>failed\<close>, it carries the
  issues and recommendations of that verification result, the item's status is
  \<open>FAILED\<close>, and the planner's log has no re-planning entry that it did not have before,
  so \<open>replan\<close> was not called.
\<close>

theorem zero_budget_failure:
  assumes "run_phases e reg fuel sys (task\<lparr>status_t := IN_PROGRESS\<rparr>) None 0
             (snd (time_time e w)) = Some (Inr (plan, rs, vr), sys', w')"
    and "\<not> passed vr"
  shows "\<exists>fr sys'' task' w''.
           process_task e reg fuel sys task 0 w
             = Some (Some (VerificationFailed fr), sys'', task', w'')
         \<and> status_fr fr = ''failed''
         \<and> issues_found_fr fr = issues_found vr
         \<and> recommendations_fr fr = recommendations vr
         \<and> status_t task' = FAILED
         \<and> filter is_replanning (activity_log (planner sys''))
             = filter is_replanning (activity_log (planner sys))"
proof -
  let ?task = "task\<lparr>status_t := IN_PROGRESS\<rparr>"
  let ?failed = "?task\<lparr>status_t := FAILED\<rparr>"
  let ?t = "fst (time_time e w') - fst (time_time e w)"
  let ?fr = "create_failure_result ?failed plan rs vr ?t 0"
  let ?sys = "sys'\<lparr>system_metrics := update_system_metrics (system_metrics sys') ?t False 0\<rparr>"
  have "process_task e reg fuel sys task 0 w
        = Some (Some (VerificationFailed ?fr), ?sys, ?failed, snd (time_time e w'))"
    using assms
    by (simp add: process_task_def process_loop.simps [of _ _ _ _ _ _ _ _ 0] Let_def split_def)
  moreover have "status_fr ?fr = ''failed''" "issues_found_fr ?fr = issues_found vr"
    "recommendations_fr ?fr = recommendations vr"
    by (simp_all add: create_failure_result_def)
  moreover have "status_t ?failed = FAILED" by simp
  moreover have "filter is_replanning (activity_log (planner ?sys))
      = filter is_replanning (activity_log (planner sys))"
    using run_phases_first_planner [OF assms(1)] by simp
  ultimately show ?thesis by blast
qed

lemma demo_first_cycle:
  "(case run_phases demo_env reliable_registry 6 demo_system
           (demo_task\<lparr>status_t := IN_PROGRESS\<rparr>) None 0 (snd (time_time demo_env 0)) of
      Some (Inr (plan, rs, vr), sys', w') \<Rightarrow> \<not> passed vr
    | _ \<Rightarrow> False)"
  by code_simp

theorem zero_budget_failure_witness:
  "\<exists>plan rs vr sys' w'.
     run_phases demo_env reliable_registry 6 demo_system (demo_task\<lparr>status_t := IN_PROGRESS\<rparr>)
       None 0 (snd (time_time demo_env 0)) = Some (Inr (plan, rs, vr), sys', w')
     \<and> \<not> passed vr
     \<and> (\<exists>fr sys'' task' w''.
           process_task demo_env reliable_registry 6 demo_system demo_task 0 0
             = Some (Some (VerificationFailed fr), sys'', task', w'')
         \<and> status_fr fr = ''failed''
         \<and> issues_found_fr fr = issues_found vr
         \<and> recommendations_fr fr = recommendations vr
         \<and> status_t task' = FAILED
         \<and> filter is_replanning (activity_log (planner sys''))
             = filter is_replanning (activity_log (planner demo_system)))"
proof -
  let ?run = "run_phases demo_env reliable_registry 6 demo_system
                (demo_task\<lparr>status_t := IN_PROGRESS\<rparr>) None 0 (snd (time_time demo_env 0))"
  from demo_first_cycle obtain r where r: "?run = Some r"
    by (cases ?run) simp_all
  obtain x sys' w' where x: "r = (x, sys', w')"
    by (cases r)
  from demo_first_cycle r x obtain pv where pv: "x = Inr pv"
    by (cases x) simp_all
  obtain plan rs vr where tup: "pv = (plan, rs, vr)"
    by (cases pv)
  from demo_first_cycle r x pv tup have failed: "\<not> passed vr"
    by simp
  from r x pv tup have run: "?run = Some (Inr (plan, rs, vr), sys', w')"
    by simp
  from zero_budget_failure [OF run failed] run failed show ?thesis
    by blast
qed

text \<open>
  C10. For every work item and every negative \<open>max_replanning_attempts\<close>,
  \<open>process_task\<close> reads the clock, sets the item's status to \<open>IN_PROGRESS\<close> and returns
  \<open>None\<close>: the loop body never runs, so the three agents and the system metrics are
  exactly as before.
\<close>

theorem negative_budget_returns_none:
  assumes "max_replanning_attempts < 0"
  shows "process_task e reg fuel sys task max_replanning_attempts w
         = Some (None, sys, task\<lparr>status_t := IN_PROGRESS\<rparr>, snd (time_time e w))"
  using assms
  by (simp add: process_task_def process_loop.simps split_def)

theorem negative_budget_returns_none_witness:
  "(- 1 :: int) < 0
   \<and> process_task demo_env reliable_registry 6 demo_system demo_task (- 1) 0
       = Some (None, demo_system, demo_task\<lparr>status_t := IN_PROGRESS\<rparr>, 0)"
  using negative_budget_returns_none [of "- 1" demo_env reliable_registry 6 demo_system demo_task 0]
  by (simp add: demo_clock)

end
